theory Spec2Isabelle
  imports Main "HOL-Library.Sublist" "HOL-Library.AList" "HOL-Library.Multiset"
begin

section \<open>JavaScript strings\<close>

text \<open>
  A JavaScript string is a finite sequence of code units; it is modelled as a \<^typ>\<open>string\<close>,
  one \<^typ>\<open>char\<close> per code unit (the code units below 256, which hold every character
  the program itself tests for).  The functions of this section are the methods of
  \<open>String.prototype\<close> and \<open>Array.prototype\<close> that the memory server calls, with the
  behaviour ECMAScript gives them on the arguments the server passes.
\<close>

definition nl :: char where
  "nl = CHR 0x0A"

definition sp :: char where
  "sp = CHR 0x20"

text \<open>The entry delimiter \<open>'\n\n'\<close>.\<close>

definition delimiter :: string where
  "delimiter = [nl, nl]"

text \<open>White space as \<open>trim()\<close> sees it: TAB, LF, VT, FF, CR, SP and NBSP.\<close>

definition isWhiteSpace :: "char \<Rightarrow> bool" where
  "isWhiteSpace c \<longleftrightarrow>
     c = CHR 0x09 \<or> c = CHR 0x0A \<or> c = CHR 0x0B \<or> c = CHR 0x0C \<or> c = CHR 0x0D \<or>
     c = CHR 0x20 \<or> c = CHR 0xA0"

definition trim :: "string \<Rightarrow> string" where
  "trim s = rev (dropWhile isWhiteSpace (rev (dropWhile isWhiteSpace s)))"

text \<open>Truthiness of a string: every string but the empty one.\<close>

definition truthy :: "string \<Rightarrow> bool" where
  "truthy s \<longleftrightarrow> s \<noteq> []"

text \<open>\<open>s.startsWith(p)\<close>, \<open>s.endsWith(p)\<close>, \<open>s.includes(p)\<close>, \<open>s.substring(n)\<close>.\<close>

definition startsWith :: "string \<Rightarrow> string \<Rightarrow> bool" where
  "startsWith s p \<longleftrightarrow> prefix p s"

definition endsWith :: "string \<Rightarrow> string \<Rightarrow> bool" where
  "endsWith s p \<longleftrightarrow> suffix p s"

fun str_includes :: "string \<Rightarrow> string \<Rightarrow> bool" where
  "str_includes [] p \<longleftrightarrow> p = []"
| "str_includes (c # cs) p \<longleftrightarrow> prefix p (c # cs) \<or> str_includes cs p"

definition substring :: "string \<Rightarrow> nat \<Rightarrow> string" where
  "substring s n = drop n s"

text \<open>
  \<open>s.split(c)\<close> for a separator of one code unit, and \<open>s.split('\n\n')\<close>: the
  separators are found from the left and do not overlap; the result always has at least
  one element, and \<open>''.split(sep)\<close> is \<open>['']\<close>.
\<close>

fun split_char :: "char \<Rightarrow> string \<Rightarrow> string list" where
  "split_char d [] = [[]]"
| "split_char d (c # cs) =
     (if c = d then [] # split_char d cs
      else (c # hd (split_char d cs)) # tl (split_char d cs))"

fun split_delimiter :: "string \<Rightarrow> string list" where
  "split_delimiter [] = [[]]"
| "split_delimiter [c] = [[c]]"
| "split_delimiter (c # c' # cs) =
     (if c = nl \<and> c' = nl then [] # split_delimiter cs
      else (c # hd (split_delimiter (c' # cs))) # tl (split_delimiter (c' # cs)))"

text \<open>\<open>xs.join(sep)\<close> on an array of strings.\<close>

fun join :: "string \<Rightarrow> string list \<Rightarrow> string" where
  "join sep [] = []"
| "join sep [x] = x"
| "join sep (x # y # ys) = x @ sep @ join sep (y # ys)"

text \<open>
  \<open>s.replace(p, '')\<close> with a string pattern: the first occurrence of \<open>p\<close> is removed,
  and \<open>s\<close> is returned as it is when \<open>p\<close> does not occur.
\<close>

fun replace_first :: "string \<Rightarrow> string \<Rightarrow> string" where
  "replace_first [] p = []"
| "replace_first (c # cs) p =
     (if prefix p (c # cs) then drop (length p) (c # cs) else c # replace_first cs p)"

section \<open>JavaScript objects used as dictionaries\<close>

text \<open>
  A \<open>Record<string, T>\<close> created by \<open>{}\<close> is modelled by the list of its own
  properties in creation order.  Assigning to the key \<open>__proto__\<close> calls the setter
  inherited from \<open>Object.prototype\<close>, which replaces the prototype by the array assigned
  and creates no own property; every other key is created at the end or updated in place.
\<close>

type_synonym 'v js_object = "(string \<times> 'v) list"

definition obj_get :: "'v js_object \<Rightarrow> string \<Rightarrow> 'v option" where
  "obj_get obj k = map_of obj k"

definition obj_set :: "string \<Rightarrow> 'v \<Rightarrow> 'v js_object \<Rightarrow> 'v js_object" where
  "obj_set k v obj = (if k = ''__proto__'' then obj else AList.update k v obj)"

text \<open>
  The order of \<open>Object.values\<close>, \<open>Object.entries\<close> and \<open>JSON.stringify\<close>: the keys
  that are array indices (canonical decimal numerals below \<open>2^32 - 1\<close>) in ascending
  numeric order, then the other keys in creation order.
\<close>

definition isDigit :: "char \<Rightarrow> bool" where
  "isDigit c \<longleftrightarrow> (48::nat) \<le> of_char c \<and> of_char c \<le> (57::nat)"

definition digits_value :: "string \<Rightarrow> nat" where
  "digits_value s = foldl (\<lambda>n c. 10 * n + (of_char c - 48)) 0 s"

definition isArrayIndex :: "string \<Rightarrow> bool" where
  "isArrayIndex k \<longleftrightarrow>
     k \<noteq> [] \<and> list_all isDigit k \<and> (k = ''0'' \<or> hd k \<noteq> CHR ''0'') \<and>
     digits_value k < 4294967295"

definition own_entries :: "'v js_object \<Rightarrow> 'v js_object" where
  "own_entries obj =
     sort_key (\<lambda>kv. digits_value (fst kv)) (filter (\<lambda>kv. isArrayIndex (fst kv)) obj) @
     filter (\<lambda>kv. \<not> isArrayIndex (fst kv)) obj"

definition Object_values :: "'v js_object \<Rightarrow> 'v list" where
  "Object_values obj = map snd (own_entries obj)"

definition Object_keys :: "'v js_object \<Rightarrow> string list" where
  "Object_keys obj = map fst (own_entries obj)"

text \<open>\<open>xss.flat()\<close> on an array of arrays of strings.\<close>

definition flat :: "'a list list \<Rightarrow> 'a list" where
  "flat xss = concat xss"

section \<open>Decoding a category body\<close>

text \<open>
  The loop over the entries in \<open>retrieveCategory\<close> (the file-backed server) and in
  \<open>MemoryManager.retrieve\<close> (the \<open>localStorage\<close>-backed manager); the two bodies are
  the same text.  \<open>decode_entry\<close> is one iteration, \<open>decode_entries\<close> the loop.
\<close>

definition untaggedKey :: string where
  "untaggedKey = ''untagged''"

definition decode_entry :: "string list js_object \<Rightarrow> string \<Rightarrow> string list js_object" where
  "decode_entry memories entry =
     (if \<not> truthy (trim entry) then memories
      else
        let lines = split_char nl entry in
        if length lines = 0 then memories
        else
          let firstLine = hd lines in
          if startsWith firstLine ''# '' then
            let tags = split_char sp (trim (substring firstLine 2));
                tagKey = join '' '' tags
            in obj_set tagKey (filter (\<lambda>line. truthy (trim line)) (tl lines)) memories
          else
            let memories' =
                  (if obj_get memories untaggedKey = None
                   then obj_set untaggedKey [] memories else memories)
            in (case obj_get memories' untaggedKey of
                  Some old \<Rightarrow>
                    obj_set untaggedKey
                      (old @ filter (\<lambda>line. truthy (trim line)) lines) memories'
                | None \<Rightarrow> memories'))"

definition decode_entries :: "string list \<Rightarrow> string list js_object" where
  "decode_entries entries = foldl decode_entry [] entries"

definition decode_body :: "string \<Rightarrow> string list js_object" where
  "decode_body content = decode_entries (split_delimiter content)"

section \<open>Encoding an entry\<close>

text \<open>
  The text that \<open>remember_memory\<close> and \<open>MemoryManager.remember\<close> append: the tag
  header when there are tags, the data, and the delimiter.
\<close>

definition encode_entry :: "string \<Rightarrow> string list \<Rightarrow> string" where
  "encode_entry data tags =
     (let content = [];
          content = (if length tags > 0 then content @ ''# '' @ join '' '' tags @ [nl]
                     else content)
      in content @ data @ delimiter)"

section \<open>Errors, results and effects\<close>

text \<open>
  A thrown value is an \<open>Error\<close> object with a name and a message.  \<open>String(error)\<close>
  and \<open>`${error}`\<close> are \<open>Error.prototype.toString\<close>.
\<close>

datatype js_error = JsError (name: string) (message: string)

definition error_toString :: "js_error \<Rightarrow> string" where
  "error_toString e =
     (if name e = [] then message e
      else if message e = [] then name e
      else name e @ '': '' @ message e)"

text \<open>
  \<open>error instanceof Error ? error.message : String(error)\<close>; every thrown value of
  the model is an \<open>Error\<close>.
\<close>

definition error_text :: "js_error \<Rightarrow> string" where
  "error_text e = message e"

text \<open>
  A tool result \<open>{ content: [{ type: "text", text }], isError }\<close>.  Its text is
  either a plain string or \<open>JSON.stringify(memories, null, 2)\<close>, kept here as the
  object that is serialised (its own properties, written in the order of \<open>own_entries\<close>).
  A result without \<open>isError\<close> has it \<open>False\<close>.
\<close>

datatype tool_text = Text string | Json "string list js_object"

record CallToolResult =
  result_text :: tool_text
  isError :: bool

text \<open>
  An operation on the outside world \<open>'w\<close> either returns a value or throws; both leave a
  world behind.  \<open>io_catch\<close> is \<open>try { ... } catch (error) { ... }\<close>.
\<close>

type_synonym ('a, 'w) io = "'w \<Rightarrow> (js_error + 'a) \<times> 'w"

definition io_return :: "'a \<Rightarrow> ('a, 'w) io" where
  "io_return x = (\<lambda>w. (Inr x, w))"

definition io_throw :: "js_error \<Rightarrow> ('a, 'w) io" where
  "io_throw e = (\<lambda>w. (Inl e, w))"

definition io_bind :: "('a, 'w) io \<Rightarrow> ('a \<Rightarrow> ('b, 'w) io) \<Rightarrow> ('b, 'w) io" where
  "io_bind m f = (\<lambda>w. case m w of (Inl e, w') \<Rightarrow> (Inl e, w') | (Inr x, w') \<Rightarrow> f x w')"

definition io_catch :: "('a, 'w) io \<Rightarrow> (js_error \<Rightarrow> ('a, 'w) io) \<Rightarrow> ('a, 'w) io" where
  "io_catch m h = (\<lambda>w. case m w of (Inl e, w') \<Rightarrow> h e w' | (Inr x, w') \<Rightarrow> (Inr x, w'))"

section \<open>The file-backed server (\<open>memory-server/index.ts\<close>)\<close>

subsection \<open>Paths\<close>

text \<open>
  An absolute, normalised path is the list of its components below the root.
  \<open>path.join(base, s1, ..., sn)\<close> (POSIX) on such a base: the segments are cut at
  \<open>/\<close>; an empty segment and \<open>.\<close> are dropped, \<open>..\<close> removes the last component
  (and nothing at the root).
\<close>

type_synonym path = "string list"

definition slash :: char where
  "slash = CHR ''/''"

definition path_step :: "path \<Rightarrow> string \<Rightarrow> path" where
  "path_step p seg =
     (if seg = [] \<or> seg = ''.'' then p
      else if seg = ''..'' then butlast p
      else p @ [seg])"

definition path_join :: "path \<Rightarrow> string list \<Rightarrow> path" where
  "path_join base args = foldl path_step base (concat (map (split_char slash) args))"

text \<open>
  \<open>process.cwd()\<close> and \<open>os.homedir()\<close>, and the two directories of \<open>appDirs\<close>
  (its fields \<open>local\<close> and \<open>global\<close>).
\<close>

record environment =
  cwd :: path
  homedir :: path

record app_dirs =
  local_dir :: path
  global_dir :: path

definition appDirs :: "environment \<Rightarrow> app_dirs" where
  "appDirs env =
     \<lparr> local_dir = path_join (cwd env) [''.goose'', ''memory''],
       global_dir = path_join (homedir env) [''.config'', ''goose'', ''memory''] \<rparr>"

definition baseDir :: "app_dirs \<Rightarrow> bool \<Rightarrow> path" where
  "baseDir dirs is_global = (if is_global then global_dir dirs else local_dir dirs)"

definition memoryFilePath :: "app_dirs \<Rightarrow> string \<Rightarrow> bool \<Rightarrow> path" where
  "memoryFilePath dirs category is_global =
     path_join (baseDir dirs is_global) [category @ ''.txt'']"

subsection \<open>The file-system interface\<close>

text \<open>
  The calls of \<open>fs-extra\<close> that the server makes.  The handlers are written against
  this interface, so that a statement about every storage failure is a statement about
  every implementation of it.
\<close>

record 'w fs_api =
  pathExists :: "path \<Rightarrow> (bool, 'w) io"
  readFile :: "path \<Rightarrow> (string, 'w) io"
  appendFile :: "path \<Rightarrow> string \<Rightarrow> (unit, 'w) io"
  writeFile :: "path \<Rightarrow> string \<Rightarrow> (unit, 'w) io"
  readdir :: "path \<Rightarrow> (string list, 'w) io"
  remove :: "path \<Rightarrow> (unit, 'w) io"
  emptyDir :: "path \<Rightarrow> (unit, 'w) io"

subsection \<open>The handlers\<close>

text \<open>
  The four handlers that \<open>index.ts\<close> registers, and \<open>retrieveCategory\<close>.  The
  calls of the logger are left out: they touch neither the files nor the results.
\<close>

definition error_result :: "js_error \<Rightarrow> CallToolResult" where
  "error_result error = \<lparr> result_text = Text (''Error: '' @ error_text error), isError = True \<rparr>"

definition text_result :: "string \<Rightarrow> CallToolResult" where
  "text_result s = \<lparr> result_text = Text s, isError = False \<rparr>"

definition json_result :: "string list js_object \<Rightarrow> CallToolResult" where
  "json_result memories = \<lparr> result_text = Json memories, isError = False \<rparr>"

definition retrieveCategory ::
  "'w fs_api \<Rightarrow> app_dirs \<Rightarrow> string \<Rightarrow> bool \<Rightarrow> (string list js_object, 'w) io" where
  "retrieveCategory fs dirs category isGlobal =
     (let memoryFilePath = memoryFilePath dirs category isGlobal in
      io_bind (pathExists fs memoryFilePath) (\<lambda>exists.
        if \<not> exists then io_return []
        else io_bind (readFile fs memoryFilePath) (\<lambda>content.
          io_return (decode_body content))))"

definition remember_memory ::
  "'w fs_api \<Rightarrow> app_dirs \<Rightarrow> string \<Rightarrow> string \<Rightarrow> string list \<Rightarrow> bool \<Rightarrow> (CallToolResult, 'w) io" where
  "remember_memory fs dirs category data tags is_global =
     io_catch
       (let memoryFilePath = memoryFilePath dirs category is_global;
            content = encode_entry data tags
        in io_bind (appendFile fs memoryFilePath content) (\<lambda>_.
             io_return (text_result (''Successfully stored memory in category: '' @ category))))
       (\<lambda>error. io_return (error_result error))"

fun retrieve_all_files ::
  "'w fs_api \<Rightarrow> app_dirs \<Rightarrow> bool \<Rightarrow> string list \<Rightarrow> string list js_object \<Rightarrow>
     (string list js_object, 'w) io" where
  "retrieve_all_files fs dirs is_global [] memories = io_return memories"
| "retrieve_all_files fs dirs is_global (file # files) memories =
     (if endsWith file ''.txt'' then
        let categoryName = replace_first file ''.txt'' in
        io_bind (retrieveCategory fs dirs categoryName is_global) (\<lambda>categoryMemories.
          retrieve_all_files fs dirs is_global files
            (if length (Object_values categoryMemories) > 0
             then obj_set categoryName (flat (Object_values categoryMemories)) memories
             else memories))
      else retrieve_all_files fs dirs is_global files memories)"

definition retrieve_memories ::
  "'w fs_api \<Rightarrow> app_dirs \<Rightarrow> string \<Rightarrow> bool \<Rightarrow> (CallToolResult, 'w) io" where
  "retrieve_memories fs dirs category is_global =
     io_catch
       (if category = ''*'' then
          io_bind (pathExists fs (baseDir dirs is_global)) (\<lambda>exists.
            io_bind
              (if exists then
                 io_bind (readdir fs (baseDir dirs is_global)) (\<lambda>files.
                   retrieve_all_files fs dirs is_global files [])
               else io_return [])
              (\<lambda>memories. io_return (json_result memories)))
        else
          io_bind (retrieveCategory fs dirs category is_global) (\<lambda>memories.
            io_return (json_result memories)))
       (\<lambda>error. io_return (error_result error))"

definition remove_memory_category ::
  "'w fs_api \<Rightarrow> app_dirs \<Rightarrow> string \<Rightarrow> bool \<Rightarrow> (CallToolResult, 'w) io" where
  "remove_memory_category fs dirs category is_global =
     io_catch
       (if category = ''*'' then
          io_bind (pathExists fs (baseDir dirs is_global)) (\<lambda>exists.
            io_bind (if exists then emptyDir fs (baseDir dirs is_global) else io_return ()) (\<lambda>_.
              io_return
                (text_result
                   (''Cleared all '' @ (if is_global then ''global'' else ''local'') @
                    '' memory categories''))))
        else
          let memoryFilePath = memoryFilePath dirs category is_global in
          io_bind (pathExists fs memoryFilePath) (\<lambda>exists.
            io_bind (if exists then remove fs memoryFilePath else io_return ()) (\<lambda>_.
              io_return (text_result (''Cleared memories in category: '' @ category)))))
       (\<lambda>error. io_return (error_result error))"

definition remove_specific_memory ::
  "'w fs_api \<Rightarrow> app_dirs \<Rightarrow> string \<Rightarrow> string \<Rightarrow> bool \<Rightarrow> (CallToolResult, 'w) io" where
  "remove_specific_memory fs dirs category memory_content is_global =
     io_catch
       (let memoryFilePath = memoryFilePath dirs category is_global in
        io_bind (pathExists fs memoryFilePath) (\<lambda>exists.
          io_bind
            (if exists then
               io_bind (readFile fs memoryFilePath) (\<lambda>content.
                 let memories = split_delimiter content;
                     newContent =
                       join delimiter
                         (filter (\<lambda>memory. \<not> str_includes memory memory_content) memories)
                 in writeFile fs memoryFilePath newContent)
             else io_return ())
            (\<lambda>_. io_return
                   (text_result (''Removed specific memory from category: '' @ category)))))
       (\<lambda>error. io_return (error_result error))"

subsection \<open>Validation of the arguments\<close>











subsection \<open>A file tree\<close>

text \<open>
  The implementation of the interface on which the functional statements are proved: a
  tree of directories and regular files held as a table from paths to nodes, the root
  being a directory.  Names and sizes are unbounded and every access is permitted, so the
  only failures are those of the tree's shape (a missing parent, a directory where a file
  is expected); contents are the strings that \<open>readFile(path, 'utf-8')\<close> returns.
\<close>

datatype node = File string | Directory

type_synonym file_tree = "(path \<times> node) list"

definition lookup :: "file_tree \<Rightarrow> path \<Rightarrow> node option" where
  "lookup t p = (if p = [] then Some Directory else map_of t p)"

definition render_path :: "path \<Rightarrow> string" where
  "render_path p = (if p = [] then ''/'' else concat (map (\<lambda>seg. slash # seg) p))"

definition fs_error :: "string \<Rightarrow> string \<Rightarrow> path \<Rightarrow> js_error" where
  "fs_error code syscall p =
     JsError ''Error'' (code @ '', '' @ syscall @ '' '' @ [CHR 0x27] @ render_path p @ [CHR 0x27])"

definition ENOENT :: string where
  "ENOENT = ''ENOENT: no such file or directory''"

definition EISDIR :: string where
  "EISDIR = ''EISDIR: illegal operation on a directory''"

definition ENOTDIR :: string where
  "ENOTDIR = ''ENOTDIR: not a directory''"

definition tree_pathExists :: "path \<Rightarrow> (bool, file_tree) io" where
  "tree_pathExists p = (\<lambda>t. (Inr (lookup t p \<noteq> None), t))"

definition tree_readFile :: "path \<Rightarrow> (string, file_tree) io" where
  "tree_readFile p =
     (\<lambda>t. case lookup t p of
             Some (File c) \<Rightarrow> (Inr c, t)
           | Some Directory \<Rightarrow> (Inl (fs_error EISDIR ''read'' p), t)
           | None \<Rightarrow> (Inl (fs_error ENOENT ''open'' p), t))"

definition tree_put :: "(string \<Rightarrow> string) \<Rightarrow> path \<Rightarrow> (unit, file_tree) io" where
  "tree_put f p =
     (\<lambda>t. case lookup t p of
             Some (File c) \<Rightarrow> (Inr (), AList.update p (File (f c)) t)
           | Some Directory \<Rightarrow> (Inl (fs_error EISDIR ''open'' p), t)
           | None \<Rightarrow>
               (case lookup t (butlast p) of
                  Some Directory \<Rightarrow> (Inr (), AList.update p (File (f [])) t)
                | Some (File _) \<Rightarrow> (Inl (fs_error ENOTDIR ''open'' p), t)
                | None \<Rightarrow> (Inl (fs_error ENOENT ''open'' p), t)))"

definition tree_appendFile :: "path \<Rightarrow> string \<Rightarrow> (unit, file_tree) io" where
  "tree_appendFile p data = tree_put (\<lambda>c. c @ data) p"

definition tree_writeFile :: "path \<Rightarrow> string \<Rightarrow> (unit, file_tree) io" where
  "tree_writeFile p data = tree_put (\<lambda>c. data) p"

definition children :: "file_tree \<Rightarrow> path \<Rightarrow> string list" where
  "children t d = map (\<lambda>(q, n). last q) (filter (\<lambda>(q, n). q \<noteq> [] \<and> butlast q = d) t)"

definition tree_readdir :: "path \<Rightarrow> (string list, file_tree) io" where
  "tree_readdir d =
     (\<lambda>t. case lookup t d of
             Some Directory \<Rightarrow> (Inr (children t d), t)
           | Some (File _) \<Rightarrow> (Inl (fs_error ENOTDIR ''scandir'' d), t)
           | None \<Rightarrow> (Inl (fs_error ENOENT ''scandir'' d), t))"

text \<open>
  \<open>fs.remove\<close> removes a file, or a directory with everything below it, and accepts
  a path that does not exist.
\<close>

definition tree_remove :: "path \<Rightarrow> (unit, file_tree) io" where
  "tree_remove p = (\<lambda>t. (Inr (), filter (\<lambda>(q, n). \<not> prefix p q) t))"

text \<open>
  \<open>fs.emptyDir\<close> removes everything below a directory and creates the directory, with
  its missing ancestors, when it does not exist.
\<close>

definition is_file :: "node option \<Rightarrow> bool" where
  "is_file n = (case n of Some (File c) \<Rightarrow> True | _ \<Rightarrow> False)"

definition mkdirs :: "path \<Rightarrow> (unit, file_tree) io" where
  "mkdirs d =
     (\<lambda>t. if list_ex (\<lambda>q. is_file (lookup t q)) (prefixes d)
          then (Inl (fs_error ENOTDIR ''mkdir'' d), t)
          else (Inr (),
                foldl (\<lambda>t q. if lookup t q = None then t @ [(q, Directory)] else t)
                  t (prefixes d)))"

definition tree_emptyDir :: "path \<Rightarrow> (unit, file_tree) io" where
  "tree_emptyDir d =
     (\<lambda>t. case lookup t d of
             Some Directory \<Rightarrow> (Inr (), filter (\<lambda>(q, n). \<not> strict_prefix d q) t)
           | Some (File _) \<Rightarrow> (Inl (fs_error ENOTDIR ''scandir'' d), t)
           | None \<Rightarrow> mkdirs d t)"

definition tree_fs :: "file_tree fs_api" where
  "tree_fs =
     \<lparr> pathExists = tree_pathExists, readFile = tree_readFile,
       appendFile = tree_appendFile, writeFile = tree_writeFile,
       readdir = tree_readdir, remove = tree_remove, emptyDir = tree_emptyDir \<rparr>"

text \<open>\<open>fs.ensureDirSync\<close> of both directories when the server starts.\<close>

definition ensureDirs :: "app_dirs \<Rightarrow> (unit, file_tree) io" where
  "ensureDirs dirs = io_bind (mkdirs (local_dir dirs)) (\<lambda>_. mkdirs (global_dir dirs))"

section \<open>The \<open>localStorage\<close>-backed manager (\<open>MemoryManager\<close>)\<close>

subsection \<open>Web storage\<close>

text \<open>
  \<open>localStorage\<close> is a table from keys to values, in the order in which the keys were
  first set, with a quota on the total size of keys and values: \<open>setItem\<close> throws a
  \<open>QuotaExceededError\<close> when the new value does not fit.
\<close>

record storage =
  items :: "(string \<times> string) list"
  quota :: nat

definition getItem :: "storage \<Rightarrow> string \<Rightarrow> string option" where
  "getItem ls k = map_of (items ls) k"

definition storage_size :: "(string \<times> string) list \<Rightarrow> nat" where
  "storage_size al = sum_list (map (\<lambda>(k, v). length k + length v) al)"

definition QuotaExceededError :: js_error where
  "QuotaExceededError = JsError ''QuotaExceededError'' ''The quota has been exceeded.''"

definition setItem :: "string \<Rightarrow> string \<Rightarrow> (unit, storage) io" where
  "setItem k v =
     (\<lambda>ls. if storage_size (AList.update k v (items ls)) > quota ls
           then (Inl QuotaExceededError, ls)
           else (Inr (), ls\<lparr>items := AList.update k v (items ls)\<rparr>))"

definition removeItem :: "string \<Rightarrow> storage \<Rightarrow> storage" where
  "removeItem k ls = ls\<lparr>items := AList.delete k (items ls)\<rparr>"

text \<open>\<open>localStorage.key(i)\<close> for \<open>i = 0, ..., localStorage.length - 1\<close>.\<close>

definition storage_keys :: "storage \<Rightarrow> string list" where
  "storage_keys ls = map fst (items ls)"

subsection \<open>The class\<close>

record MemoryManager =
  appName :: string
  localStoragePrefix :: string
  globalStoragePrefix :: string

text \<open>The constructor; \<open>options.appName || 'goose'\<close> replaces a missing or empty name.\<close>

definition new_MemoryManager :: "string option \<Rightarrow> MemoryManager" where
  "new_MemoryManager options_appName =
     (let appName = (case options_appName of
                       None \<Rightarrow> ''goose''
                     | Some n \<Rightarrow> if truthy n then n else ''goose'')
      in \<lparr> appName = appName,
           localStoragePrefix = appName @ ''_local_memory_'',
           globalStoragePrefix = appName @ ''_global_memory_'' \<rparr>)"

definition storagePrefix :: "MemoryManager \<Rightarrow> bool \<Rightarrow> string" where
  "storagePrefix this isGlobal =
     (if isGlobal then globalStoragePrefix this else localStoragePrefix this)"

definition getStorageKey :: "MemoryManager \<Rightarrow> string \<Rightarrow> bool \<Rightarrow> string" where
  "getStorageKey this category isGlobal = storagePrefix this isGlobal @ category"

definition MemoryError :: "string \<Rightarrow> js_error" where
  "MemoryError msg = JsError ''MemoryError'' msg"

definition new_Error :: "string \<Rightarrow> js_error" where
  "new_Error msg = JsError ''Error'' msg"

text \<open>
  The methods are written against the calls of \<open>localStorage\<close> that they make, each of
  which may throw: \<open>getItem\<close>, the enumeration of the keys by \<open>length\<close> and
  \<open>key(i)\<close>, \<open>setItem\<close> and \<open>removeItem\<close>.  Reading does not change the storage.
\<close>

record 'w storage_api =
  ls_getItem :: "string \<Rightarrow> 'w \<Rightarrow> js_error + string option"
  ls_keys :: "'w \<Rightarrow> js_error + string list"
  ls_setItem :: "string \<Rightarrow> string \<Rightarrow> (unit, 'w) io"
  ls_removeItem :: "string \<Rightarrow> (unit, 'w) io"

text \<open>The web storage above as an implementation of these calls; its reads do not throw.\<close>

definition web_storage :: "storage storage_api" where
  "web_storage =
     \<lparr> ls_getItem = (\<lambda>k ls. Inr (getItem ls k)),
       ls_keys = (\<lambda>ls. Inr (storage_keys ls)),
       ls_setItem = setItem,
       ls_removeItem = (\<lambda>k ls. (Inr (), removeItem k ls)) \<rparr>"

text \<open>A read as an operation: the outcome of the read, and the world as it was.\<close>

definition io_read :: "('w \<Rightarrow> js_error + 'a) \<Rightarrow> ('a, 'w) io" where
  "io_read r = (\<lambda>w. (r w, w))"

text \<open>
  \<open>retrieve\<close>: when \<open>getItem\<close> throws, the \<open>catch\<close> block logs the error to the console
  and returns \<open>{}\<close>.
\<close>

definition retrieve ::
  "'w storage_api \<Rightarrow> MemoryManager \<Rightarrow> string \<Rightarrow> bool \<Rightarrow> 'w \<Rightarrow> string list js_object" where
  "retrieve api this category isGlobal w =
     (let storageKey = getStorageKey this category isGlobal in
      case ls_getItem api storageKey w of
        Inl error \<Rightarrow> []
      | Inr None \<Rightarrow> []
      | Inr (Some content) \<Rightarrow> if \<not> truthy content then [] else decode_body content)"

text \<open>
  \<open>retrieveAll\<close>: when the enumeration of the keys throws, the \<open>catch\<close> block returns
  \<open>{}\<close>; a failure inside \<open>retrieve\<close> has been caught there.
\<close>

definition retrieveAll ::
  "'w storage_api \<Rightarrow> MemoryManager \<Rightarrow> bool \<Rightarrow> 'w \<Rightarrow> string list js_object" where
  "retrieveAll api this isGlobal w =
     (let prefix = storagePrefix this isGlobal in
      case ls_keys api w of
        Inl error \<Rightarrow> []
      | Inr keys \<Rightarrow>
          foldl
            (\<lambda>memories key.
               if truthy key \<and> startsWith key prefix then
                 let category = substring key (length prefix);
                     categoryMemories = retrieve api this category isGlobal w
                 in if length (Object_values categoryMemories) > 0
                    then obj_set category (flat (Object_values categoryMemories)) memories
                    else memories
               else memories)
            [] keys)"

definition remember ::
  "'w storage_api \<Rightarrow> MemoryManager \<Rightarrow> string \<Rightarrow> string \<Rightarrow> string list \<Rightarrow> bool \<Rightarrow> (unit, 'w) io" where
  "remember api this category data tags isGlobal =
     io_catch
       (let storageKey = getStorageKey this category isGlobal in
        io_bind (io_read (ls_getItem api storageKey)) (\<lambda>item.
          let existingData = (case item of
                                None \<Rightarrow> []
                              | Some d \<Rightarrow> if truthy d then d else []);
              content = encode_entry data tags
          in ls_setItem api storageKey (existingData @ content)))
       (\<lambda>error. io_throw (MemoryError (''Failed to remember memory: '' @ error_toString error)))"

definition removeSpecificMemory ::
  "'w storage_api \<Rightarrow> MemoryManager \<Rightarrow> string \<Rightarrow> string \<Rightarrow> bool \<Rightarrow> (unit, 'w) io" where
  "removeSpecificMemory api this category memoryContent isGlobal =
     io_catch
       (let storageKey = getStorageKey this category isGlobal in
        io_bind (io_read (ls_getItem api storageKey)) (\<lambda>item.
          case item of
            None \<Rightarrow> io_return ()
          | Some content \<Rightarrow>
              if \<not> truthy content then io_return ()
              else
                let memories = split_delimiter content;
                    newContent =
                      join delimiter
                        (filter (\<lambda>memory. \<not> str_includes memory memoryContent) memories)
                in ls_setItem api storageKey newContent))
       (\<lambda>error. io_throw (MemoryError (''Failed to remove specific memory: '' @ error_toString error)))"

definition clearMemory ::
  "'w storage_api \<Rightarrow> MemoryManager \<Rightarrow> string \<Rightarrow> bool \<Rightarrow> (unit, 'w) io" where
  "clearMemory api this category isGlobal =
     io_catch
       (ls_removeItem api (getStorageKey this category isGlobal))
       (\<lambda>error. io_throw (MemoryError (''Failed to clear memory: '' @ error_toString error)))"

text \<open>\<open>keysToRemove.forEach(key => localStorage.removeItem(key))\<close>.\<close>

fun removeItems :: "'w storage_api \<Rightarrow> string list \<Rightarrow> (unit, 'w) io" where
  "removeItems api [] = io_return ()"
| "removeItems api (key # keys) = io_bind (ls_removeItem api key) (\<lambda>_. removeItems api keys)"

definition clearAllMemories :: "'w storage_api \<Rightarrow> MemoryManager \<Rightarrow> bool \<Rightarrow> (unit, 'w) io" where
  "clearAllMemories api this isGlobal =
     io_catch
       (let prefix = storagePrefix this isGlobal in
        io_bind (io_read (ls_keys api)) (\<lambda>keys.
          let keysToRemove = filter (\<lambda>key. truthy key \<and> startsWith key prefix) keys
          in removeItems api keysToRemove))
       (\<lambda>error. io_throw (MemoryError (''Failed to clear all memories: '' @ error_toString error)))"

subsection \<open>The handlers that \<open>registerWithServer\<close> registers\<close>

definition mm_remember_memory ::
  "'w storage_api \<Rightarrow> MemoryManager \<Rightarrow> string \<Rightarrow> string \<Rightarrow> string list \<Rightarrow> bool \<Rightarrow>
     (CallToolResult, 'w) io" where
  "mm_remember_memory api this category data tags is_global =
     io_catch
       (io_bind (remember api this category data tags is_global) (\<lambda>_.
          io_return (text_result (''Successfully stored memory in category: '' @ category))))
       (\<lambda>error. io_throw (new_Error (''Failed to store memory: '' @ error_text error)))"

definition mm_retrieve_memories ::
  "'w storage_api \<Rightarrow> MemoryManager \<Rightarrow> string \<Rightarrow> bool \<Rightarrow> (CallToolResult, 'w) io" where
  "mm_retrieve_memories api this category is_global =
     io_catch
       (\<lambda>w.
          let memories = (if category = ''*'' then retrieveAll api this is_global w
                          else retrieve api this category is_global w)
          in (Inr (json_result memories), w))
       (\<lambda>error. io_throw (new_Error (''Failed to retrieve memories: '' @ error_text error)))"

definition mm_remove_memory_category ::
  "'w storage_api \<Rightarrow> MemoryManager \<Rightarrow> string \<Rightarrow> bool \<Rightarrow> (CallToolResult, 'w) io" where
  "mm_remove_memory_category api this category is_global =
     io_catch
       (if category = ''*'' then
          io_bind (clearAllMemories api this is_global) (\<lambda>_.
            io_return
              (text_result
                 (''Cleared all '' @ (if is_global then ''global'' else ''local'') @
                  '' memory categories'')))
        else
          io_bind (clearMemory api this category is_global) (\<lambda>_.
            io_return (text_result (''Cleared memories in category: '' @ category))))
       (\<lambda>error. io_throw (new_Error (''Failed to remove memory category: '' @ error_text error)))"

definition mm_remove_specific_memory ::
  "'w storage_api \<Rightarrow> MemoryManager \<Rightarrow> string \<Rightarrow> string \<Rightarrow> bool \<Rightarrow> (CallToolResult, 'w) io" where
  "mm_remove_specific_memory api this category memory_content is_global =
     io_catch
       (io_bind (removeSpecificMemory api this category memory_content is_global) (\<lambda>_.
          io_return (text_result (''Removed specific memory from category: '' @ category))))
       (\<lambda>error. io_throw (new_Error (''Failed to remove specific memory: '' @ error_text error)))"

section \<open>Sequences of operations\<close>

text \<open>
  The four tools as one type of operations, the handler of an operation in a scope, and
  the state after a sequence of operations that are all invoked in one scope.
\<close>

datatype operation =
    Remember string string "string list"
  | Retrieve string
  | RemoveCategory string
  | RemoveEntry string string






text \<open>Neither directory lies in the other.\<close>

definition separate :: "app_dirs \<Rightarrow> bool" where
  "separate dirs \<longleftrightarrow>
     \<not> prefix (local_dir dirs) (global_dir dirs) \<and> \<not> prefix (global_dir dirs) (local_dir dirs)"

text \<open>
  Two file trees are the same outside a directory: every path that is not below the
  directory has the same node, and every directory that is not the directory or below it
  has the same listing.
\<close>

definition same_outside :: "path \<Rightarrow> file_tree \<Rightarrow> file_tree \<Rightarrow> bool" where
  "same_outside base t t' \<longleftrightarrow>
     (\<forall>q. \<not> strict_prefix base q \<longrightarrow> lookup t' q = lookup t q) \<and>
     (\<forall>d. \<not> prefix base d \<longrightarrow> children t' d = children t d)"


section \<open>Vocabulary of the statements\<close>

text \<open>The lines already filed under \<open>untagged\<close> in a grouped view.\<close>

definition untagged_lines :: "string list js_object \<Rightarrow> string list" where
  "untagged_lines memories = (case obj_get memories untaggedKey of None \<Rightarrow> [] | Some old \<Rightarrow> old)"

text \<open>Every line of the text has a character that is not white space.\<close>

definition no_blank_line :: "string \<Rightarrow> bool" where
  "no_blank_line data \<longleftrightarrow> list_all (\<lambda>line. truthy (trim line)) (split_char nl data)"


text \<open>The body is empty or its last entry is closed by the delimiter.\<close>

definition ends_at_delimiter :: "string \<Rightarrow> bool" where
  "ends_at_delimiter body \<longleftrightarrow> last (split_delimiter body) = []"

text \<open>
  The body of a category in the file tree (empty when there is no file), and the paths
  at which a file can be written: an existing regular file, or a free name in an existing
  directory.
\<close>

definition file_body :: "file_tree \<Rightarrow> path \<Rightarrow> string" where
  "file_body t p = (case lookup t p of Some (File c) \<Rightarrow> c | _ \<Rightarrow> [])"

definition writable :: "file_tree \<Rightarrow> path \<Rightarrow> bool" where
  "writable t p =
     (case lookup t p of
        Some (File c) \<Rightarrow> True
      | Some Directory \<Rightarrow> False
      | None \<Rightarrow> lookup t (butlast p) = Some Directory)"

text \<open>The same for \<open>localStorage\<close>: the value under a key, and room for a new value.\<close>

definition stored_body :: "storage \<Rightarrow> string \<Rightarrow> string" where
  "stored_body ls k = (case getItem ls k of None \<Rightarrow> [] | Some d \<Rightarrow> d)"

definition has_room :: "storage \<Rightarrow> string \<Rightarrow> string \<Rightarrow> bool" where
  "has_room ls k v \<longleftrightarrow> storage_size (AList.update k v (items ls)) \<le> quota ls"

text \<open>
  The body that \<open>remove_specific_memory\<close> and \<open>removeSpecificMemory\<close> write back:
  \<open>content.split('\n\n').filter(memory => !memory.includes(memory_content)).join('\n\n')\<close>.
\<close>

definition kept_blocks :: "string \<Rightarrow> string \<Rightarrow> string" where
  "kept_blocks content memory_content =
     join delimiter (filter (\<lambda>memory. \<not> str_includes memory memory_content) (split_delimiter content))"

text \<open>
  To speak of every failure during a handler, the calls of the file-system interface are
  observed: \<open>recorded m\<close> runs \<open>m\<close> and, when it throws, appends the error thrown to a
  log kept beside the world; \<open>recording fs\<close> is \<open>fs\<close> with every call recorded.  The
  log after a handler holds, in order, the errors that the calls made by it have thrown.
\<close>

definition recorded :: "('a, 'w) io \<Rightarrow> ('a, 'w \<times> js_error list) io" where
  "recorded m =
     (\<lambda>(w, log). case m w of
                    (Inl e, w') \<Rightarrow> (Inl e, (w', log @ [e]))
                  | (Inr x, w') \<Rightarrow> (Inr x, (w', log)))"



text \<open>
  One step of the wildcard loops: a category whose view has a group is entered with the
  flattened lines of its groups.  The category names that the file-backed server derives
  from a directory listing, and the view of a category in the file tree.
\<close>

definition collect ::
  "(string \<Rightarrow> string list js_object) \<Rightarrow> string list js_object \<Rightarrow> string \<Rightarrow> string list js_object" where
  "collect view memories category =
     (if length (Object_values (view category)) > 0
      then obj_set category (flat (Object_values (view category))) memories
      else memories)"

definition category_names :: "string list \<Rightarrow> string list" where
  "category_names files =
     map (\<lambda>file. replace_first file ''.txt'') (filter (\<lambda>file. endsWith file ''.txt'') files)"

definition tree_view :: "app_dirs \<Rightarrow> bool \<Rightarrow> file_tree \<Rightarrow> string \<Rightarrow> string list js_object" where
  "tree_view dirs g t category = decode_body (file_body t (memoryFilePath dirs category g))"

text \<open>No path that the wildcard loop reads is a directory.\<close>

definition listing_readable :: "app_dirs \<Rightarrow> bool \<Rightarrow> file_tree \<Rightarrow> bool" where
  "listing_readable dirs g t \<longleftrightarrow>
     lookup t (baseDir dirs g) = Some Directory \<and>
     list_all (\<lambda>category. lookup t (memoryFilePath dirs category g) \<noteq> Some Directory)
       (category_names (children t (baseDir dirs g)))"

text \<open>Concrete states on which the statements are evaluated.\<close>

definition env_ex :: environment where
  "env_ex = \<lparr> cwd = [''work''], homedir = [''home''] \<rparr>"

definition dirs_ex :: app_dirs where
  "dirs_ex = \<lparr> local_dir = [''work'', ''.goose'', ''memory''],
               global_dir = [''home'', ''.config'', ''goose'', ''memory''] \<rparr>"

definition tree_ex :: file_tree where
  "tree_ex =
     [([''work''], Directory), ([''work'', ''.goose''], Directory),
      ([''work'', ''.goose'', ''memory''], Directory),
      ([''home''], Directory), ([''home'', ''.config''], Directory),
      ([''home'', ''.config'', ''goose''], Directory),
      ([''home'', ''.config'', ''goose'', ''memory''], Directory)]"

definition body_ex :: string where
  "body_ex =
     ''# work'' @ [nl] @ ''call Bob'' @ delimiter @ ''buy milk'' @ delimiter @
     ''# home'' @ [nl] @ ''feed cat'' @ delimiter"

definition tree_notes :: file_tree where
  "tree_notes = tree_ex @ [([''work'', ''.goose'', ''memory'', ''notes.txt''], File body_ex)]"

definition manager_ex :: MemoryManager where
  "manager_ex = new_MemoryManager None"

definition storage_ex :: storage where
  "storage_ex = \<lparr> items = [], quota = 5000000 \<rparr>"

definition storage_notes :: storage where
  "storage_notes = \<lparr> items = [(''goose_local_memory_notes'', body_ex)], quota = 5000000 \<rparr>"

text \<open>
  Three local categories, one of them with a blank body, and one global category, in the
  file tree and in the storage.
\<close>

definition tree_cats :: file_tree where
  "tree_cats = tree_ex @
     [([''work'', ''.goose'', ''memory'', ''x.txt''],
         File (''a'' @ delimiter @ ''# t'' @ [nl] @ ''b'' @ delimiter)),
      ([''work'', ''.goose'', ''memory'', ''y.txt''], File (''c'' @ delimiter)),
      ([''work'', ''.goose'', ''memory'', ''blank.txt''], File ('' '' @ delimiter)),
      ([''home'', ''.config'', ''goose'', ''memory'', ''z.txt''], File (''d'' @ delimiter))]"

definition storage_cats :: storage where
  "storage_cats =
     \<lparr> items =
         [(''goose_local_memory_x'', ''a'' @ delimiter @ ''# t'' @ [nl] @ ''b'' @ delimiter),
          (''goose_local_memory_y'', ''c'' @ delimiter),
          (''goose_local_memory_blank'', '' '' @ delimiter),
          (''goose_global_memory_z'', ''d'' @ delimiter)],
       quota = 5000000 \<rparr>"


definition EROFS :: js_error where
  "EROFS = JsError ''Error'' ''EROFS: read-only file system''"







text \<open>A machine on which the home directory lies in the local memory directory.\<close>

definition env_nested :: environment where
  "env_nested = \<lparr> cwd = [], homedir = [''.goose'', ''memory''] \<rparr>"

definition tree_nested :: file_tree where
  "tree_nested =
     [([''.goose''], Directory), ([''.goose'', ''memory''], Directory),
      ([''.goose'', ''memory'', ''.config''], Directory),
      ([''.goose'', ''memory'', ''.config'', ''goose''], Directory),
      ([''.goose'', ''memory'', ''.config'', ''goose'', ''memory''], Directory),
      ([''.goose'', ''memory'', ''.config'', ''goose'', ''memory'', ''z.txt''],
         File (''d'' @ delimiter))]"

section \<open>The manager on the web storage\<close>

text \<open>On the web storage no read throws, and the methods are as follows.\<close>

lemma web_storage_calls:
  "ls_getItem web_storage k ls = Inr (getItem ls k)"
  "ls_keys web_storage ls = Inr (storage_keys ls)"
  "ls_setItem web_storage = setItem"
  "ls_removeItem web_storage k ls = (Inr (), removeItem k ls)"
  by (simp_all add: web_storage_def)

lemma retrieve_web:
  "retrieve web_storage this category isGlobal ls =
     (let storageKey = getStorageKey this category isGlobal in
      case getItem ls storageKey of
        None \<Rightarrow> []
      | Some content \<Rightarrow> if \<not> truthy content then [] else decode_body content)"
  by (simp add: retrieve_def web_storage_calls Let_def split: option.splits)

lemma retrieveAll_web:
  "retrieveAll web_storage this isGlobal ls =
     (let prefix = storagePrefix this isGlobal in
      foldl
        (\<lambda>memories key.
           if truthy key \<and> startsWith key prefix then
             let category = substring key (length prefix);
                 categoryMemories = retrieve web_storage this category isGlobal ls
             in if length (Object_values categoryMemories) > 0
                then obj_set category (flat (Object_values categoryMemories)) memories
                else memories
           else memories)
        [] (storage_keys ls))"
  by (simp add: retrieveAll_def web_storage_calls Let_def)

lemma remember_web:
  "remember web_storage this category data tags isGlobal =
     io_catch
       (\<lambda>ls.
          let storageKey = getStorageKey this category isGlobal;
              existingData = (case getItem ls storageKey of
                                None \<Rightarrow> []
                              | Some d \<Rightarrow> if truthy d then d else []);
              content = encode_entry data tags
          in setItem storageKey (existingData @ content) ls)
       (\<lambda>error. io_throw (MemoryError (''Failed to remember memory: '' @ error_toString error)))"
proof -
  have "(let storageKey = getStorageKey this category isGlobal in
        io_bind (io_read (ls_getItem web_storage storageKey)) (\<lambda>item.
          let existingData = (case item of
                                None \<Rightarrow> []
                              | Some d \<Rightarrow> if truthy d then d else []);
              content = encode_entry data tags
          in ls_setItem web_storage storageKey (existingData @ content))) =
        (\<lambda>ls.
          let storageKey = getStorageKey this category isGlobal;
              existingData = (case getItem ls storageKey of
                                None \<Rightarrow> []
                              | Some d \<Rightarrow> if truthy d then d else []);
              content = encode_entry data tags
          in setItem storageKey (existingData @ content) ls)"
    by (intro ext) (simp add: web_storage_calls io_read_def io_bind_def Let_def)
  then show ?thesis by (simp only: remember_def)
qed

lemma removeSpecificMemory_web:
  "removeSpecificMemory web_storage this category memoryContent isGlobal =
     io_catch
       (\<lambda>ls.
          let storageKey = getStorageKey this category isGlobal in
          case getItem ls storageKey of
            None \<Rightarrow> (Inr (), ls)
          | Some content \<Rightarrow>
              if \<not> truthy content then (Inr (), ls)
              else
                let memories = split_delimiter content;
                    newContent =
                      join delimiter
                        (filter (\<lambda>memory. \<not> str_includes memory memoryContent) memories)
                in setItem storageKey newContent ls)
       (\<lambda>error. io_throw (MemoryError (''Failed to remove specific memory: '' @ error_toString error)))"
proof -
  have "(let storageKey = getStorageKey this category isGlobal in
        io_bind (io_read (ls_getItem web_storage storageKey)) (\<lambda>item.
          case item of
            None \<Rightarrow> io_return ()
          | Some content \<Rightarrow>
              if \<not> truthy content then io_return ()
              else
                let memories = split_delimiter content;
                    newContent =
                      join delimiter
                        (filter (\<lambda>memory. \<not> str_includes memory memoryContent) memories)
                in ls_setItem web_storage storageKey newContent)) =
       (\<lambda>ls.
          let storageKey = getStorageKey this category isGlobal in
          case getItem ls storageKey of
            None \<Rightarrow> (Inr (), ls)
          | Some content \<Rightarrow>
              if \<not> truthy content then (Inr (), ls)
              else
                let memories = split_delimiter content;
                    newContent =
                      join delimiter
                        (filter (\<lambda>memory. \<not> str_includes memory memoryContent) memories)
                in setItem storageKey newContent ls)"
    by (intro ext)
       (simp add: web_storage_calls io_read_def io_bind_def io_return_def Let_def split: option.splits)
  then show ?thesis by (simp only: removeSpecificMemory_def)
qed

lemma clearMemory_web:
  "clearMemory web_storage this category isGlobal =
     io_catch
       (\<lambda>ls. (Inr (), removeItem (getStorageKey this category isGlobal) ls))
       (\<lambda>error. io_throw (MemoryError (''Failed to clear memory: '' @ error_toString error)))"
proof -
  have "ls_removeItem web_storage (getStorageKey this category isGlobal) =
        (\<lambda>ls. (Inr (), removeItem (getStorageKey this category isGlobal) ls))"
    by (intro ext) (simp add: web_storage_calls)
  then show ?thesis by (simp only: clearMemory_def)
qed

lemma removeItems_web:
  "removeItems web_storage keys ls = (Inr (), foldl (\<lambda>ls key. removeItem key ls) ls keys)"
  by (induction keys arbitrary: ls) (simp_all add: web_storage_calls io_bind_def io_return_def)

lemma clearAllMemories_web:
  "clearAllMemories web_storage this isGlobal =
     io_catch
       (\<lambda>ls.
          let prefix = storagePrefix this isGlobal;
              keysToRemove = filter (\<lambda>key. truthy key \<and> startsWith key prefix) (storage_keys ls)
          in (Inr (), foldl (\<lambda>ls key. removeItem key ls) ls keysToRemove))
       (\<lambda>error. io_throw (MemoryError (''Failed to clear all memories: '' @ error_toString error)))"
proof -
  have "(let prefix = storagePrefix this isGlobal in
        io_bind (io_read (ls_keys web_storage)) (\<lambda>keys.
          let keysToRemove = filter (\<lambda>key. truthy key \<and> startsWith key prefix) keys
          in removeItems web_storage keysToRemove)) =
       (\<lambda>ls.
          let prefix = storagePrefix this isGlobal;
              keysToRemove = filter (\<lambda>key. truthy key \<and> startsWith key prefix) (storage_keys ls)
          in (Inr (), foldl (\<lambda>ls key. removeItem key ls) ls keysToRemove))"
    by (intro ext) (simp add: io_read_def io_bind_def Let_def removeItems_web web_storage_calls)
  then show ?thesis by (simp only: clearAllMemories_def)
qed

section \<open>Properties of the string functions\<close>

lemma split_char_nonempty [simp]: "split_char d s \<noteq> []"
  by (induction s) auto

lemma split_delimiter_nonempty [simp]: "split_delimiter s \<noteq> []"
  by (induction s rule: split_delimiter.induct) auto

lemma join_Cons: "ys \<noteq> [] \<Longrightarrow> join sep (x # ys) = x @ sep @ join sep ys"
  by (cases ys) auto

lemma join_Cons_hd:
  "xs \<noteq> [] \<Longrightarrow> join sep ((c # hd xs) # tl xs) = c # join sep xs"
  by (cases xs; cases "tl xs"; auto)


lemma join_split_delimiter: "join delimiter (split_delimiter s) = s"
  by (induction s rule: split_delimiter.induct) (auto simp: join_Cons join_Cons_hd delimiter_def)


lemma split_char_notin: "d \<notin> set s \<Longrightarrow> split_char d s = [s]"
  by (induction s) auto

lemma split_delimiter_append:
  "last (split_delimiter a) = [] \<Longrightarrow>
   split_delimiter (a @ b) = butlast (split_delimiter a) @ split_delimiter b"
proof (induction a rule: split_delimiter.induct)
  case 1
  then show ?case by simp
next
  case (2 c)
  then show ?case by simp
next
  case (3 c c' cs)
  show ?case
  proof (cases "c = nl \<and> c' = nl")
    case True
    with "3.prems" have "last (split_delimiter cs) = []" by simp
    with "3.IH"(1) True have "split_delimiter (cs @ b) = butlast (split_delimiter cs) @ split_delimiter b"
      by blast
    with True show ?thesis by simp
  next
    case False
    let ?r = "split_delimiter (c' # cs)"
    from False "3.prems" have l: "last ((c # hd ?r) # tl ?r) = []" by auto
    then have tl: "tl ?r \<noteq> []" by (auto split: if_splits)
    then have "last ?r = []" using l by (cases ?r) auto
    with "3.IH"(2) False have ih: "split_delimiter ((c' # cs) @ b) = butlast ?r @ split_delimiter b"
      by blast
    from tl have "butlast ?r \<noteq> []" by (cases ?r) auto
    then have "hd (butlast ?r @ split_delimiter b) = hd ?r"
      and "tl (butlast ?r @ split_delimiter b) = tl (butlast ?r) @ split_delimiter b"
      by (cases ?r; auto split: if_splits)+
    moreover have "butlast ((c # hd ?r) # tl ?r) = (c # hd ?r) # tl (butlast ?r)"
      using tl by (cases ?r) (auto split: if_splits)
    ultimately show ?thesis using False ih by auto
  qed
qed

lemma split_delimiter_entry:
  "[] \<notin> set (tl (split_char nl y)) \<Longrightarrow> split_delimiter (y @ delimiter) = [y, []]"
proof (induction y rule: split_delimiter.induct)
  case 1
  then show ?case by (simp add: delimiter_def)
next
  case (2 c)
  then show ?case by (auto simp: delimiter_def split: if_splits)
next
  case (3 c c' cs)
  from "3.prems" have ne: "\<not> (c = nl \<and> c' = nl)" by auto
  have "[] \<notin> set (tl (split_char nl (c' # cs)))"
    using "3.prems" by (cases "c = nl") (auto split: if_splits dest: list.set_sel(2)[rotated])
  with "3.IH"(2) ne have "split_delimiter ((c' # cs) @ delimiter) = [c' # cs, []]" by blast
  with ne show ?case by auto
qed

lemma trim_empty_iff: "trim s = [] \<longleftrightarrow> (\<forall>c \<in> set s. isWhiteSpace c)"
proof -
  have "trim s = [] \<longleftrightarrow> dropWhile isWhiteSpace (rev (dropWhile isWhiteSpace s)) = []"
    by (simp add: trim_def)
  also have "\<dots> \<longleftrightarrow> (\<forall>c \<in> set (dropWhile isWhiteSpace s). isWhiteSpace c)"
    by (simp add: dropWhile_eq_Nil_conv)
  also have "\<dots> \<longleftrightarrow> (\<forall>c \<in> set s. isWhiteSpace c)"
  proof
    assume a: "\<forall>c \<in> set (dropWhile isWhiteSpace s). isWhiteSpace c"
    have "dropWhile isWhiteSpace s = []"
    proof (rule ccontr)
      assume "dropWhile isWhiteSpace s \<noteq> []"
      then have "\<not> isWhiteSpace (hd (dropWhile isWhiteSpace s))" by (rule hd_dropWhile)
      moreover have "hd (dropWhile isWhiteSpace s) \<in> set (dropWhile isWhiteSpace s)"
        using \<open>dropWhile isWhiteSpace s \<noteq> []\<close> by simp
      ultimately show False using a by blast
    qed
    then show "\<forall>c \<in> set s. isWhiteSpace c" by (simp add: dropWhile_eq_Nil_conv)
  next
    assume "\<forall>c \<in> set s. isWhiteSpace c"
    then show "\<forall>c \<in> set (dropWhile isWhiteSpace s). isWhiteSpace c"
      by (meson set_dropWhileD)
  qed
  finally show ?thesis .
qed

lemma truthy_trim_iff: "truthy (trim s) \<longleftrightarrow> (\<exists>c \<in> set s. \<not> isWhiteSpace c)"
  by (simp add: truthy_def trim_empty_iff)

lemma trim_id: "s \<noteq> [] \<Longrightarrow> \<not> isWhiteSpace (hd s) \<Longrightarrow> \<not> isWhiteSpace (last s) \<Longrightarrow> trim s = s"
proof -
  assume a: "s \<noteq> []" "\<not> isWhiteSpace (hd s)" "\<not> isWhiteSpace (last s)"
  then have 1: "dropWhile isWhiteSpace s = s" by (cases s) auto
  from a have "rev s \<noteq> []" "\<not> isWhiteSpace (hd (rev s))" by (auto simp: hd_rev)
  then have "dropWhile isWhiteSpace (rev s) = rev s" by (cases "rev s") auto
  with 1 show ?thesis by (simp add: trim_def)
qed

lemma trim_Nil [simp]: "trim [] = []"
  by (simp add: trim_def)

lemma str_includes_iff: "str_includes s p \<longleftrightarrow> (\<exists>a b. s = a @ p @ b)"
proof (induction s)
  case Nil
  then show ?case by auto
next
  case (Cons c cs)
  show ?case
  proof
    assume "str_includes (c # cs) p"
    then consider "prefix p (c # cs)" | "str_includes cs p" by auto
    then show "\<exists>a b. c # cs = a @ p @ b"
    proof cases
      case 1
      then obtain b where "c # cs = p @ b" by (auto simp: prefix_def)
      then have "c # cs = [] @ p @ b" by simp
      then show ?thesis by blast
    next
      case 2
      with Cons obtain a b where "cs = a @ p @ b" by blast
      then have "c # cs = (c # a) @ p @ b" by simp
      then show ?thesis by blast
    qed
  next
    assume "\<exists>a b. c # cs = a @ p @ b"
    then obtain a b where ab: "c # cs = a @ p @ b" by blast
    show "str_includes (c # cs) p"
    proof (cases a)
      case Nil
      with ab have "prefix p (c # cs)" by (auto simp: prefix_def)
      then show ?thesis by simp
    next
      case (Cons a' as)
      with ab have "cs = as @ p @ b" by simp
      with Cons.IH have "str_includes cs p" by blast
      then show ?thesis by simp
    qed
  qed
qed

lemma split_char_subset: "l \<in> set (split_char d s) \<Longrightarrow> set l \<subseteq> set s"
proof (induction s arbitrary: l)
  case Nil
  then show ?case by simp
next
  case (Cons c cs)
  show ?case
  proof (cases "c = d")
    case True
    with Cons show ?thesis by (auto)
  next
    case False
    with Cons.prems have "l = c # hd (split_char d cs) \<or> l \<in> set (tl (split_char d cs))" by simp
    moreover have "hd (split_char d cs) \<in> set (split_char d cs)" by simp
    moreover have "set (tl (split_char d cs)) \<subseteq> set (split_char d cs)"
      by (simp add: list.set_sel(2) subsetI)
    ultimately show ?thesis using Cons.IH by (auto, blast+)
  qed
qed

lemma hd_split_char_notin: "d \<notin> set (hd (split_char d s))"
  by (induction s) auto

section \<open>Properties of objects and of the decoder\<close>

lemma obj_get_obj_set:
  "obj_get (obj_set k v obj) k' =
     (if k' = k \<and> k \<noteq> ''__proto__'' then Some v else obj_get obj k')"
  by (simp add: obj_get_def obj_set_def update_conv')

lemma length_own_entries: "length (own_entries obj) = length obj"
proof -
  have "length (filter (\<lambda>kv. isArrayIndex (fst kv)) obj) +
        length (filter (\<lambda>kv. \<not> isArrayIndex (fst kv)) obj) = length obj"
    by (rule sum_length_filter_compl)
  then show ?thesis by (simp add: own_entries_def)
qed

lemma length_Object_values [simp]: "length (Object_values obj) = length obj"
  by (simp add: Object_values_def length_own_entries)

lemma mset_own_entries: "mset (own_entries obj) = mset obj"
proof -
  have "mset (filter (\<lambda>kv. isArrayIndex (fst kv)) obj) +
        mset (filter (\<lambda>kv. \<not> isArrayIndex (fst kv)) obj) = mset obj"
    by (induction obj) auto
  then show ?thesis by (simp add: own_entries_def)
qed

lemma mset_Object_values: "mset (Object_values obj) = mset (map snd obj)"
  by (simp add: Object_values_def mset_own_entries)

lemma set_flat_Object_values: "set (flat (Object_values obj)) = (\<Union>kv \<in> set obj. set (snd kv))"
proof -
  have "set (Object_values obj) = snd ` set obj"
    using mset_Object_values[of obj] by (metis set_map set_mset_mset)
  then show ?thesis by (auto simp: flat_def)
qed

lemma decode_entry_blank: "\<forall>c \<in> set entry. isWhiteSpace c \<Longrightarrow> decode_entry memories entry = memories"
  by (simp add: decode_entry_def truthy_def trim_empty_iff)

lemma decode_entry_Nil [simp]: "decode_entry memories [] = memories"
  by (simp add: decode_entry_blank)

lemma decode_entries_append:
  "foldl decode_entry m (xs @ ys) = foldl decode_entry (foldl decode_entry m xs) ys"
  by simp

lemma decode_entries_butlast:
  "last (split_delimiter body) = [] \<Longrightarrow>
   foldl decode_entry [] (butlast (split_delimiter body)) = decode_body body"
proof -
  assume a: "last (split_delimiter body) = []"
  have "split_delimiter body = butlast (split_delimiter body) @ [last (split_delimiter body)]"
    by simp
  then have "decode_body body =
      foldl decode_entry [] (butlast (split_delimiter body) @ [[]])"
    using a by (simp add: decode_body_def decode_entries_def)
  then show ?thesis by simp
qed

text \<open>Decoding a body to which one entry block has been appended.\<close>

lemma decode_body_append_entry:
  assumes "last (split_delimiter body) = []"
    and "[] \<notin> set (tl (split_char nl entry))"
  shows "decode_body (body @ entry @ delimiter) = decode_entry (decode_body body) entry"
proof -
  have "split_delimiter (body @ entry @ delimiter) =
        butlast (split_delimiter body) @ [entry, []]"
    using assms by (simp add: split_delimiter_append split_delimiter_entry)
  then show ?thesis
    using assms(1) by (simp add: decode_body_def decode_entries_def decode_entries_butlast[unfolded decode_body_def decode_entries_def])
qed

lemma last_split_delimiter_append_entry:
  assumes "last (split_delimiter body) = []"
    and "[] \<notin> set (tl (split_char nl entry))"
  shows "last (split_delimiter (body @ entry @ delimiter)) = []"
  using assms by (simp add: split_delimiter_append split_delimiter_entry)



lemma startsWith_first_line:
  "startsWith (hd (split_char nl data)) ''# '' \<longleftrightarrow> startsWith data ''# ''"
proof (cases data)
  case Nil
  then show ?thesis by (simp add: startsWith_def)
next
  case (Cons c cs)
  show ?thesis
  proof (cases cs)
    case Nil
    with Cons show ?thesis by (auto simp: startsWith_def nl_def)
  next
    case (Cons c' cs')
    with \<open>data = c # cs\<close> show ?thesis by (auto simp: startsWith_def nl_def)
  qed
qed

lemma untaggedKey_not_proto: "untaggedKey \<noteq> ''__proto__''"
  by (simp add: untaggedKey_def)

lemma decode_entry_untagged:
  assumes "truthy (trim entry)" and "\<not> startsWith entry ''# ''"
  shows "obj_get (decode_entry memories entry) untaggedKey =
         Some (untagged_lines memories @ filter (\<lambda>line. truthy (trim line)) (split_char nl entry))"
  using assms untaggedKey_not_proto
  by (auto simp: decode_entry_def Let_def startsWith_first_line obj_get_obj_set untagged_lines_def
           split: option.splits)

lemma decode_entry_untagged_other:
  assumes "\<not> startsWith entry ''# ''" and "k \<noteq> untaggedKey"
  shows "obj_get (decode_entry memories entry) k = obj_get memories k"
  using assms
  by (auto simp: decode_entry_def Let_def startsWith_first_line obj_get_obj_set
           split: option.splits)

lemma no_blank_line_lines: "no_blank_line data \<Longrightarrow> [] \<notin> set (split_char nl data)"
  by (auto simp: no_blank_line_def list_all_iff truthy_def)

lemma no_blank_line_filter:
  "no_blank_line data \<Longrightarrow> filter (\<lambda>line. truthy (trim line)) (split_char nl data) = split_char nl data"
  by (simp add: no_blank_line_def list_all_iff)

lemma no_blank_line_truthy: "no_blank_line data \<Longrightarrow> truthy (trim data)"
proof -
  assume a: "no_blank_line data"
  have "hd (split_char nl data) \<in> set (split_char nl data)" by simp
  with a have "truthy (trim (hd (split_char nl data)))"
    by (simp add: no_blank_line_def list_all_iff)
  then obtain c where "c \<in> set (hd (split_char nl data))" "\<not> isWhiteSpace c"
    by (auto simp: truthy_trim_iff)
  moreover have "set (hd (split_char nl data)) \<subseteq> set data"
    by (rule split_char_subset[of _ nl]) simp
  ultimately show ?thesis by (auto simp: truthy_trim_iff)
qed

lemma ends_at_delimiter_Nil [simp]: "ends_at_delimiter []"
  by (simp add: ends_at_delimiter_def)


lemma untagged_block:
  assumes "no_blank_line data"
  shows "[] \<notin> set (tl (split_char nl data))"
  using no_blank_line_lines[OF assms] by (meson list.set_sel(2) split_char_nonempty)


lemma encode_entry_untagged: "encode_entry data [] = data @ delimiter"
  by (simp add: encode_entry_def)


lemma decode_stored_untagged:
  assumes "ends_at_delimiter body" and "no_blank_line data" and "\<not> startsWith data ''# ''"
  shows "obj_get (decode_body (body @ encode_entry data [])) untaggedKey =
         Some (untagged_lines (decode_body body) @ split_char nl data)"
    and "ends_at_delimiter (body @ encode_entry data [])"
proof -
  have b: "[] \<notin> set (tl (split_char nl data))" using assms(2) by (rule untagged_block)
  have l: "last (split_delimiter body) = []" using assms(1) by (simp add: ends_at_delimiter_def)
  have "decode_body (body @ data @ delimiter) = decode_entry (decode_body body) data"
    using l b by (rule decode_body_append_entry)
  then show "obj_get (decode_body (body @ encode_entry data [])) untaggedKey =
         Some (untagged_lines (decode_body body) @ split_char nl data)"
    using decode_entry_untagged[OF no_blank_line_truthy[OF assms(2)] assms(3), of "decode_body body"]
    by (simp add: encode_entry_untagged no_blank_line_filter[OF assms(2)])
  show "ends_at_delimiter (body @ encode_entry data [])"
    using last_split_delimiter_append_entry[OF l b]
    by (simp add: encode_entry_untagged ends_at_delimiter_def)
qed

section \<open>The handlers on the file tree and on the storage\<close>

lemmas io_defs = io_bind_def io_catch_def io_return_def io_throw_def

lemma lookup_update:
  "p \<noteq> [] \<Longrightarrow> lookup (AList.update p v t) q = (if q = p then Some v else lookup t q)"
  by (simp add: lookup_def update_conv')

lemma lookup_root [simp]: "lookup t [] = Some Directory"
  by (simp add: lookup_def)

lemma writable_not_root: "writable t p \<Longrightarrow> p \<noteq> []"
  by (auto simp: writable_def)

lemma tree_put_ok:
  assumes "writable t p"
  shows "tree_put f p t = (Inr (), AList.update p (File (f (file_body t p))) t)"
proof (cases "lookup t p")
  case None
  with assms show ?thesis by (simp add: tree_put_def writable_def file_body_def)
next
  case (Some n)
  with assms show ?thesis by (cases n) (simp_all add: tree_put_def writable_def file_body_def)
qed

lemma retrieveCategory_tree:
  "retrieveCategory tree_fs dirs category g t =
     (case lookup t (memoryFilePath dirs category g) of
        None \<Rightarrow> (Inr [], t)
      | Some (File body) \<Rightarrow> (Inr (decode_body body), t)
      | Some Directory \<Rightarrow> (Inl (fs_error EISDIR ''read'' (memoryFilePath dirs category g)), t))"
  by (simp add: retrieveCategory_def tree_fs_def tree_pathExists_def tree_readFile_def io_defs Let_def
           split: option.splits node.splits)

lemma remember_memory_tree:
  assumes "writable t (memoryFilePath dirs category g)"
  shows "remember_memory tree_fs dirs category data tags g t =
     (Inr (text_result (''Successfully stored memory in category: '' @ category)),
      AList.update (memoryFilePath dirs category g)
        (File (file_body t (memoryFilePath dirs category g) @ encode_entry data tags)) t)"
  using tree_put_ok[OF assms]
  by (simp add: remember_memory_def tree_fs_def tree_appendFile_def io_defs Let_def)

lemma retrieve_memories_tree_file:
  assumes "category \<noteq> ''*''" and "lookup t (memoryFilePath dirs category g) = Some (File body)"
  shows "retrieve_memories tree_fs dirs category g t = (Inr (json_result (decode_body body)), t)"
  using assms by (simp add: retrieve_memories_def retrieveCategory_tree io_defs)

lemma stored_then_retrieved_tree:
  assumes "category \<noteq> ''*''" and "writable t (memoryFilePath dirs category g)"
  shows "\<exists>t'. remember_memory tree_fs dirs category data tags g t =
            (Inr (text_result (''Successfully stored memory in category: '' @ category)), t') \<and>
          retrieve_memories tree_fs dirs category g t' =
            (Inr (json_result (decode_body
               (file_body t (memoryFilePath dirs category g) @ encode_entry data tags))), t')"
proof -
  let ?p = "memoryFilePath dirs category g"
  let ?t' = "AList.update ?p (File (file_body t ?p @ encode_entry data tags)) t"
  have "?p \<noteq> []" using assms(2) by (rule writable_not_root)
  then have "lookup ?t' ?p = Some (File (file_body t ?p @ encode_entry data tags))"
    by (simp add: lookup_update)
  with assms(1) have "retrieve_memories tree_fs dirs category g ?t' =
      (Inr (json_result (decode_body (file_body t ?p @ encode_entry data tags))), ?t')"
    by (rule retrieve_memories_tree_file)
  with remember_memory_tree[OF assms(2)] show ?thesis by blast
qed

lemma getItem_setItem:
  "has_room ls k v \<Longrightarrow> setItem k v ls = (Inr (), ls\<lparr>items := AList.update k v (items ls)\<rparr>)"
  by (simp add: setItem_def has_room_def)

lemma getItem_update:
  "getItem (ls\<lparr>items := AList.update k v (items ls)\<rparr>) k' = (if k' = k then Some v else getItem ls k')"
  by (simp add: getItem_def update_conv')

lemma remember_mm:
  assumes "has_room ls (getStorageKey this category g)
             (stored_body ls (getStorageKey this category g) @ encode_entry data tags)"
  shows "remember web_storage this category data tags g ls =
     (Inr (), ls\<lparr>items := AList.update (getStorageKey this category g)
        (stored_body ls (getStorageKey this category g) @ encode_entry data tags) (items ls)\<rparr>)"
proof -
  have "(case getItem ls (getStorageKey this category g) of None \<Rightarrow> []
         | Some d \<Rightarrow> if truthy d then d else []) = stored_body ls (getStorageKey this category g)"
    by (simp add: stored_body_def truthy_def split: option.splits)
  then show ?thesis
    using getItem_setItem[OF assms] by (simp add: remember_web io_defs Let_def)
qed

lemma encode_entry_nonempty: "encode_entry data tags \<noteq> []"
  by (simp add: encode_entry_def delimiter_def)

lemma stored_then_retrieved_mm:
  assumes "category \<noteq> ''*''"
    and "has_room ls (getStorageKey this category g)
             (stored_body ls (getStorageKey this category g) @ encode_entry data tags)"
  shows "\<exists>ls'. mm_remember_memory web_storage this category data tags g ls =
            (Inr (text_result (''Successfully stored memory in category: '' @ category)), ls') \<and>
          mm_retrieve_memories web_storage this category g ls' =
            (Inr (json_result (decode_body
               (stored_body ls (getStorageKey this category g) @ encode_entry data tags))), ls')"
proof -
  let ?k = "getStorageKey this category g"
  let ?v = "stored_body ls ?k @ encode_entry data tags"
  let ?ls' = "ls\<lparr>items := AList.update ?k ?v (items ls)\<rparr>"
  have 1: "mm_remember_memory web_storage this category data tags g ls =
            (Inr (text_result (''Successfully stored memory in category: '' @ category)), ?ls')"
    using remember_mm[OF assms(2)] by (simp add: mm_remember_memory_def io_defs)
  have "getItem ?ls' ?k = Some ?v" by (simp add: getItem_update)
  moreover have "truthy ?v" by (simp add: truthy_def encode_entry_nonempty)
  ultimately have "retrieve web_storage this category g ?ls' = decode_body ?v"
    by (simp add: retrieve_web Let_def)
  with assms(1) have "mm_retrieve_memories web_storage this category g ?ls' = (Inr (json_result (decode_body ?v)), ?ls')"
    by (simp add: mm_retrieve_memories_def io_defs Let_def)
  with 1 show ?thesis by blast
qed

section \<open>Evaluation on concrete states\<close>

text \<open>
  Equations that evaluate the two splitting functions with one recursive call for each
  code unit; from here on they replace the defining equations in the simplifier.
\<close>

lemma split_char_eval:
  "split_char d (c # cs) =
     (if c = d then [] # split_char d cs
      else (case split_char d cs of [] \<Rightarrow> [[c]] | x # xs \<Rightarrow> (c # x) # xs))"
  by (cases "split_char d cs") auto

lemma split_delimiter_eval:
  "split_delimiter (c # c' # cs) =
     (if c = nl \<and> c' = nl then [] # split_delimiter cs
      else (case split_delimiter (c' # cs) of [] \<Rightarrow> [[c]] | x # xs \<Rightarrow> (c # x) # xs))"
  by (cases "split_delimiter (c' # cs)") auto

declare split_char.simps(2) [simp del] split_delimiter.simps(3) [simp del]

lemmas string_eval = nl_def sp_def delimiter_def trim_def truthy_def isWhiteSpace_def
  startsWith_def endsWith_def substring_def suffix_to_prefix split_char_eval split_delimiter_eval

lemmas object_eval = obj_get_def obj_set_def Object_values_def own_entries_def isArrayIndex_def
  isDigit_def digits_value_def flat_def untaggedKey_def

lemmas decode_eval = decode_body_def decode_entries_def decode_entry_def encode_entry_def Let_def

lemmas tree_eval = tree_fs_def tree_pathExists_def tree_readFile_def tree_appendFile_def
  tree_writeFile_def tree_put_def tree_readdir_def children_def tree_remove_def tree_emptyDir_def
  lookup_def memoryFilePath_def baseDir_def path_join_def path_step_def slash_def
  dirs_ex_def tree_ex_def split_char_eval

lemmas handler_eval = remember_memory_def retrieve_memories_def retrieveCategory_def
  remove_memory_category_def remove_specific_memory_def io_defs
  text_result_def json_result_def error_result_def error_text_def

lemmas storage_eval = getItem_def setItem_def removeItem_def storage_keys_def storage_size_def
  new_MemoryManager_def storagePrefix_def getStorageKey_def manager_ex_def storage_ex_def

lemmas manager_eval = retrieve_web retrieveAll_web remember_web removeSpecificMemory_web
  clearMemory_web clearAllMemories_web mm_remember_memory_def mm_retrieve_memories_def
  mm_remove_memory_category_def mm_remove_specific_memory_def MemoryError_def new_Error_def
  error_toString_def

lemma appDirs_ex: "appDirs env_ex = dirs_ex"
  by (simp add: appDirs_def env_ex_def dirs_ex_def path_join_def path_step_def slash_def split_char_eval)

lemma ensureDirs_ex: "ensureDirs dirs_ex [] = (Inr (), tree_ex)"
  by (simp add: ensureDirs_def mkdirs_def dirs_ex_def tree_ex_def io_defs lookup_def is_file_def)

section \<open>Storing, then retrieving\<close>




lemma writable_update: "p \<noteq> [] \<Longrightarrow> writable (AList.update p (File c) t) p"
  by (simp add: writable_def lookup_update)

lemma file_body_update: "p \<noteq> [] \<Longrightarrow> file_body (AList.update p (File c) t) p = c"
  by (simp add: file_body_def lookup_update)

lemma has_room_update:
  "has_room (ls\<lparr>items := AList.update k v' (items ls)\<rparr>) k v \<longleftrightarrow> has_room ls k v"
  by (simp add: has_room_def)

lemma stored_body_update:
  "stored_body (ls\<lparr>items := AList.update k v (items ls)\<rparr>) k = v"
  by (simp add: stored_body_def getItem_update)

lemma stored_twice_tree:
  assumes "category \<noteq> ''*''" and "writable t (memoryFilePath dirs category g)"
  shows "\<exists>t1 t2. remember_memory tree_fs dirs category data tags g t =
            (Inr (text_result (''Successfully stored memory in category: '' @ category)), t1) \<and>
          remember_memory tree_fs dirs category data tags g t1 =
            (Inr (text_result (''Successfully stored memory in category: '' @ category)), t2) \<and>
          retrieve_memories tree_fs dirs category g t2 =
            (Inr (json_result (decode_body
               ((file_body t (memoryFilePath dirs category g) @ encode_entry data tags) @
                encode_entry data tags))), t2)"
proof -
  let ?p = "memoryFilePath dirs category g"
  let ?t1 = "AList.update ?p (File (file_body t ?p @ encode_entry data tags)) t"
  have ne: "?p \<noteq> []" using assms(2) by (rule writable_not_root)
  have 1: "remember_memory tree_fs dirs category data tags g t =
      (Inr (text_result (''Successfully stored memory in category: '' @ category)), ?t1)"
    using assms(2) by (rule remember_memory_tree)
  have w: "writable ?t1 ?p" using ne by (rule writable_update)
  have b: "file_body ?t1 ?p = file_body t ?p @ encode_entry data tags"
    using ne by (rule file_body_update)
  from stored_then_retrieved_tree[OF assms(1) w, of data tags] b 1 show ?thesis
    by auto
qed

lemma stored_twice_mm:
  assumes "category \<noteq> ''*''"
    and "has_room ls (getStorageKey this category g)
             (stored_body ls (getStorageKey this category g) @ encode_entry data tags)"
    and "has_room ls (getStorageKey this category g)
             ((stored_body ls (getStorageKey this category g) @ encode_entry data tags) @
              encode_entry data tags)"
  shows "\<exists>ls1 ls2. mm_remember_memory web_storage this category data tags g ls =
            (Inr (text_result (''Successfully stored memory in category: '' @ category)), ls1) \<and>
          mm_remember_memory web_storage this category data tags g ls1 =
            (Inr (text_result (''Successfully stored memory in category: '' @ category)), ls2) \<and>
          mm_retrieve_memories web_storage this category g ls2 =
            (Inr (json_result (decode_body
               ((stored_body ls (getStorageKey this category g) @ encode_entry data tags) @
                encode_entry data tags))), ls2)"
proof -
  let ?k = "getStorageKey this category g"
  let ?v = "stored_body ls ?k @ encode_entry data tags"
  let ?ls1 = "ls\<lparr>items := AList.update ?k ?v (items ls)\<rparr>"
  have 1: "mm_remember_memory web_storage this category data tags g ls =
            (Inr (text_result (''Successfully stored memory in category: '' @ category)), ?ls1)"
    using remember_mm[OF assms(2)] by (simp add: mm_remember_memory_def io_defs)
  have b: "stored_body ?ls1 ?k = ?v" by (rule stored_body_update)
  have "has_room ?ls1 ?k (stored_body ?ls1 ?k @ encode_entry data tags)"
    unfolding b has_room_update using assms(3) .
  from stored_then_retrieved_mm[OF assms(1) this] b 1 show ?thesis
    by auto
qed

text \<open>
  Claim C2 fails on the code: a tagged entry is assigned to its group, not appended, so of
  two entries with the same tag header only the second is in the view, while the branch
  for entries without a header appends.  Stored under the tag \<open>a\<close>, first \<open>x\<close> and then
  \<open>y\<close>, the category is retrieved as \<open>{"a": ["y"]}\<close>.
\<close>

theorem same_tags_overwrite:
  "fst (retrieve_memories tree_fs dirs_ex ''notes'' False
         (snd (remember_memory tree_fs dirs_ex ''notes'' ''y'' [''a''] False
           (snd (remember_memory tree_fs dirs_ex ''notes'' ''x'' [''a''] False tree_ex))))) =
     Inr (json_result [(''a'', [''y''])]) \<and>
   fst (mm_retrieve_memories web_storage manager_ex ''notes'' False
         (snd (mm_remember_memory web_storage manager_ex ''notes'' ''y'' [''a''] False
           (snd (mm_remember_memory web_storage manager_ex ''notes'' ''x'' [''a''] False storage_ex))))) =
     Inr (json_result [(''a'', [''y''])]) \<and>
   decode_body (''# a'' @ [nl] @ ''x'' @ delimiter @ ''# a'' @ [nl] @ ''y'' @ delimiter) =
     [(''a'', [''y''])] \<and>
   decode_body (''x'' @ delimiter @ ''y'' @ delimiter) = [(''untagged'', [''x'', ''y''])]"
  by (simp add: handler_eval tree_eval decode_eval string_eval object_eval manager_eval storage_eval)

section \<open>Storing twice\<close>

text \<open>
  Claim C10, as stated, fails: stored twice without tags, the data \<open># milk\<close> is read back
  as two tag headers, and the view is \<open>{"milk": []}\<close>, with nothing under \<open>untagged\<close>.
\<close>

theorem store_twice_counterexample:
  "fst (retrieve_memories tree_fs dirs_ex ''shopping'' True
         (snd (remember_memory tree_fs dirs_ex ''shopping'' ''# milk'' [] True
           (snd (remember_memory tree_fs dirs_ex ''shopping'' ''# milk'' [] True tree_ex))))) =
     Inr (json_result [(''milk'', [])])"
  by (simp add: handler_eval tree_eval decode_eval string_eval object_eval)

text \<open>
  Claim C10, amended.  Let the category be other than \<open>*\<close>, let every line of the data
  have a character that is not white space, let the data not begin with \<open># \<close>, and let
  the body before the calls be empty or end at the delimiter.  Then, when both writes
  succeed, two calls of \<open>remember_memory\<close> with the same arguments and no tags followed by
  \<open>retrieve_memories\<close> return a view whose group \<open>untagged\<close> is its former lines followed
  by the lines of the data twice.  This holds for the file-backed server and for
  \<open>MemoryManager\<close>.
\<close>

theorem store_twice:
  assumes "category \<noteq> ''*''"
    and "no_blank_line data"
    and "\<not> startsWith data ''# ''"
  shows
    "(writable t (memoryFilePath dirs category g) \<and>
      ends_at_delimiter (file_body t (memoryFilePath dirs category g)) \<longrightarrow>
      (\<exists>t1 t2 m.
         remember_memory tree_fs dirs category data [] g t =
           (Inr (text_result (''Successfully stored memory in category: '' @ category)), t1) \<and>
         remember_memory tree_fs dirs category data [] g t1 =
           (Inr (text_result (''Successfully stored memory in category: '' @ category)), t2) \<and>
         retrieve_memories tree_fs dirs category g t2 = (Inr (json_result m), t2) \<and>
         obj_get m ''untagged'' =
           Some (untagged_lines (decode_body (file_body t (memoryFilePath dirs category g))) @
                 split_char nl data @ split_char nl data))) \<and>
     (has_room ls (getStorageKey this category g)
        (stored_body ls (getStorageKey this category g) @ encode_entry data []) \<and>
      has_room ls (getStorageKey this category g)
        ((stored_body ls (getStorageKey this category g) @ encode_entry data []) @
         encode_entry data []) \<and>
      ends_at_delimiter (stored_body ls (getStorageKey this category g)) \<longrightarrow>
      (\<exists>ls1 ls2 m.
         mm_remember_memory web_storage this category data [] g ls =
           (Inr (text_result (''Successfully stored memory in category: '' @ category)), ls1) \<and>
         mm_remember_memory web_storage this category data [] g ls1 =
           (Inr (text_result (''Successfully stored memory in category: '' @ category)), ls2) \<and>
         mm_retrieve_memories web_storage this category g ls2 = (Inr (json_result m), ls2) \<and>
         obj_get m ''untagged'' =
           Some (untagged_lines (decode_body (stored_body ls (getStorageKey this category g))) @
                 split_char nl data @ split_char nl data)))"
proof -
  have view: "obj_get (decode_body ((body @ encode_entry data []) @ encode_entry data [])) ''untagged'' =
                 Some (untagged_lines (decode_body body) @ split_char nl data @ split_char nl data)"
    if "ends_at_delimiter body" for body
  proof -
    note first = decode_stored_untagged[OF that assms(2,3)]
    from first(1) have "untagged_lines (decode_body (body @ encode_entry data [])) =
        untagged_lines (decode_body body) @ split_char nl data"
      by (simp add: untagged_lines_def)
    with decode_stored_untagged(1)[OF first(2) assms(2,3)] show ?thesis
      by (simp add: untaggedKey_def)
  qed
  show ?thesis
  proof (intro conjI impI)
    assume "writable t (memoryFilePath dirs category g) \<and>
      ends_at_delimiter (file_body t (memoryFilePath dirs category g))"
    then show "\<exists>t1 t2 m.
         remember_memory tree_fs dirs category data [] g t =
           (Inr (text_result (''Successfully stored memory in category: '' @ category)), t1) \<and>
         remember_memory tree_fs dirs category data [] g t1 =
           (Inr (text_result (''Successfully stored memory in category: '' @ category)), t2) \<and>
         retrieve_memories tree_fs dirs category g t2 = (Inr (json_result m), t2) \<and>
         obj_get m ''untagged'' =
           Some (untagged_lines (decode_body (file_body t (memoryFilePath dirs category g))) @
                 split_char nl data @ split_char nl data)"
      using stored_twice_tree[OF assms(1), of t dirs g data "[]"] view by blast
  next
    assume "has_room ls (getStorageKey this category g)
        (stored_body ls (getStorageKey this category g) @ encode_entry data []) \<and>
      has_room ls (getStorageKey this category g)
        ((stored_body ls (getStorageKey this category g) @ encode_entry data []) @
         encode_entry data []) \<and>
      ends_at_delimiter (stored_body ls (getStorageKey this category g))"
    then show "\<exists>ls1 ls2 m.
         mm_remember_memory web_storage this category data [] g ls =
           (Inr (text_result (''Successfully stored memory in category: '' @ category)), ls1) \<and>
         mm_remember_memory web_storage this category data [] g ls1 =
           (Inr (text_result (''Successfully stored memory in category: '' @ category)), ls2) \<and>
         mm_retrieve_memories web_storage this category g ls2 = (Inr (json_result m), ls2) \<and>
         obj_get m ''untagged'' =
           Some (untagged_lines (decode_body (stored_body ls (getStorageKey this category g))) @
                 split_char nl data @ split_char nl data)"
      using stored_twice_mm[OF assms(1), of ls this g data "[]"] view by blast
  qed
qed

theorem store_twice_witness:
  "(''shopping'' \<noteq> ''*'' \<and> no_blank_line ''milk'' \<and> \<not> startsWith ''milk'' ''# '' \<and>
    writable tree_ex (memoryFilePath dirs_ex ''shopping'' False) \<and>
    ends_at_delimiter (file_body tree_ex (memoryFilePath dirs_ex ''shopping'' False)) \<and>
    has_room storage_ex (getStorageKey manager_ex ''shopping'' False)
      (stored_body storage_ex (getStorageKey manager_ex ''shopping'' False) @
       encode_entry ''milk'' []) \<and>
    has_room storage_ex (getStorageKey manager_ex ''shopping'' False)
      ((stored_body storage_ex (getStorageKey manager_ex ''shopping'' False) @
        encode_entry ''milk'' []) @ encode_entry ''milk'' []) \<and>
    ends_at_delimiter (stored_body storage_ex (getStorageKey manager_ex ''shopping'' False))) \<and>
   (\<exists>t1 t2 m.
      remember_memory tree_fs dirs_ex ''shopping'' ''milk'' [] False tree_ex =
        (Inr (text_result ''Successfully stored memory in category: shopping''), t1) \<and>
      remember_memory tree_fs dirs_ex ''shopping'' ''milk'' [] False t1 =
        (Inr (text_result ''Successfully stored memory in category: shopping''), t2) \<and>
      retrieve_memories tree_fs dirs_ex ''shopping'' False t2 = (Inr (json_result m), t2) \<and>
      obj_get m ''untagged'' = Some [''milk'', ''milk'']) \<and>
   (\<exists>ls1 ls2 m.
      mm_remember_memory web_storage manager_ex ''shopping'' ''milk'' [] False storage_ex =
        (Inr (text_result ''Successfully stored memory in category: shopping''), ls1) \<and>
      mm_remember_memory web_storage manager_ex ''shopping'' ''milk'' [] False ls1 =
        (Inr (text_result ''Successfully stored memory in category: shopping''), ls2) \<and>
      mm_retrieve_memories web_storage manager_ex ''shopping'' False ls2 = (Inr (json_result m), ls2) \<and>
      obj_get m ''untagged'' = Some [''milk'', ''milk''])"
proof -
  have h1: "''shopping'' \<noteq> ''*''" by simp
  have h2: "no_blank_line ''milk''"
    by (simp add: no_blank_line_def string_eval)
  have h3: "\<not> startsWith ''milk'' ''# ''" by (simp add: startsWith_def)
  have h5: "writable tree_ex (memoryFilePath dirs_ex ''shopping'' False)"
    by (simp add: writable_def tree_eval)
  have h6: "ends_at_delimiter (file_body tree_ex (memoryFilePath dirs_ex ''shopping'' False))"
    by (simp add: file_body_def tree_eval)
  have h7: "has_room storage_ex (getStorageKey manager_ex ''shopping'' False)
      (stored_body storage_ex (getStorageKey manager_ex ''shopping'' False) @
       encode_entry ''milk'' [])"
    by (simp add: has_room_def stored_body_def storage_eval decode_eval string_eval)
  have h7': "has_room storage_ex (getStorageKey manager_ex ''shopping'' False)
      ((stored_body storage_ex (getStorageKey manager_ex ''shopping'' False) @
        encode_entry ''milk'' []) @ encode_entry ''milk'' [])"
    by (simp add: has_room_def stored_body_def storage_eval decode_eval string_eval)
  have h8: "ends_at_delimiter (stored_body storage_ex (getStorageKey manager_ex ''shopping'' False))"
    by (simp add: stored_body_def storage_eval)
  have v: "split_char nl ''milk'' = [''milk'']"
    by (simp add: nl_def split_char_eval)
  have u: "untagged_lines (decode_body (file_body tree_ex (memoryFilePath dirs_ex ''shopping'' False))) = []"
    "untagged_lines (decode_body (stored_body storage_ex (getStorageKey manager_ex ''shopping'' False))) = []"
    by (simp_all add: untagged_lines_def file_body_def stored_body_def tree_eval storage_eval decode_eval object_eval string_eval)
  show ?thesis
    using store_twice[OF h1 h2 h3, of tree_ex dirs_ex False storage_ex manager_ex]
      h1 h2 h3 h5 h6 h7 h7' h8 v u
    by simp
qed

section \<open>Removing entries and categories\<close>

lemma length_join: "length (join d xs) = sum_list (map length xs) + length d * (length xs - 1)"
  by (induction d xs rule: join.induct) auto

lemma length_join_filter: "length (join d (filter P xs)) \<le> length (join d xs)"
proof -
  have "sum_list (map length (filter P xs)) \<le> sum_list (map length xs)"
    by (induction xs) auto
  moreover have "length d * (length (filter P xs) - 1) \<le> length d * (length xs - 1)"
    by (simp add: diff_le_mono)
  ultimately show ?thesis by (simp add: length_join add_mono)
qed

lemma storage_size_update:
  "map_of al k = Some old \<Longrightarrow> length v \<le> length old \<Longrightarrow>
   storage_size (AList.update k v al) \<le> storage_size al"
  by (induction al) (auto simp: storage_size_def)

lemma kept_blocks_length: "length (kept_blocks body mc) \<le> length body"
  using length_join_filter[of delimiter _ "split_delimiter body"]
  by (simp add: kept_blocks_def join_split_delimiter)

lemma kept_blocks_same:
  "\<forall>b \<in> set (split_delimiter body). \<not> str_includes b mc \<Longrightarrow> kept_blocks body mc = body"
  by (simp add: kept_blocks_def join_split_delimiter)

lemma kept_blocks_Nil [simp]: "kept_blocks [] mc = []"
  by (simp add: kept_blocks_def)

lemma remove_specific_memory_tree:
  assumes "lookup t (memoryFilePath dirs category g) = Some (File body)"
  shows "remove_specific_memory tree_fs dirs category mc g t =
     (Inr (text_result (''Removed specific memory from category: '' @ category)),
      AList.update (memoryFilePath dirs category g) (File (kept_blocks body mc)) t)"
  using assms
  by (simp add: remove_specific_memory_def tree_fs_def tree_pathExists_def tree_readFile_def
        tree_writeFile_def tree_put_def io_defs Let_def kept_blocks_def)




lemma file_not_root: "lookup t p = Some (File body) \<Longrightarrow> p \<noteq> []"
  by auto

lemma removeSpecificMemory_mm:
  assumes "getItem ls (getStorageKey this category g) = Some body"
    and "storage_size (items ls) \<le> quota ls"
  shows "removeSpecificMemory web_storage this category mc g ls =
     (Inr (), ls\<lparr>items := AList.update (getStorageKey this category g) (kept_blocks body mc) (items ls)\<rparr>)"
proof (cases "body = []")
  case True
  with assms(1) have "map_of (items ls) (getStorageKey this category g) = Some []"
    by (simp add: getItem_def)
  then have "AList.update (getStorageKey this category g) [] (items ls) = items ls"
    by (rule update_triv)
  with True assms(1) show ?thesis
    by (simp add: removeSpecificMemory_web io_defs Let_def truthy_def)
next
  case False
  from assms(1) have "map_of (items ls) (getStorageKey this category g) = Some body"
    by (simp add: getItem_def)
  then have "storage_size (AList.update (getStorageKey this category g) (kept_blocks body mc) (items ls))
      \<le> storage_size (items ls)"
    using kept_blocks_length by (rule storage_size_update)
  with assms(2) have "has_room ls (getStorageKey this category g) (kept_blocks body mc)"
    by (simp add: has_room_def)
  from getItem_setItem[OF this] False assms(1) show ?thesis
    by (simp add: removeSpecificMemory_web io_defs Let_def truthy_def kept_blocks_def)
qed



text \<open>
  Claim C4.  When the category has a body, \<open>remove_specific_memory\<close> succeeds and
  rewrites the resource as the blocks of the body between double newlines that do not
  contain \<open>memory_content\<close> as a substring (anywhere in the block, the tag header
  included, compared code unit by code unit), joined by the double newline; every other
  resource is as before.  This holds for the file-backed server and, on a storage within
  its quota, for \<open>MemoryManager\<close>.
\<close>

theorem remove_entry_filters_blocks:
  "(lookup t (memoryFilePath dirs category g) = Some (File body) \<longrightarrow>
     (\<exists>t'. remove_specific_memory tree_fs dirs category memory_content g t =
             (Inr (text_result (''Removed specific memory from category: '' @ category)), t') \<and>
           lookup t' (memoryFilePath dirs category g) =
             Some (File (join delimiter
               (filter (\<lambda>block. \<not> (\<exists>u v. block = u @ memory_content @ v))
                  (split_delimiter body)))) \<and>
           (\<forall>q. q \<noteq> memoryFilePath dirs category g \<longrightarrow> lookup t' q = lookup t q))) \<and>
   (getItem ls (getStorageKey this category g) = Some body \<and>
    storage_size (items ls) \<le> quota ls \<longrightarrow>
     (\<exists>ls'. mm_remove_specific_memory web_storage this category memory_content g ls =
             (Inr (text_result (''Removed specific memory from category: '' @ category)), ls') \<and>
           getItem ls' (getStorageKey this category g) =
             Some (join delimiter
               (filter (\<lambda>block. \<not> (\<exists>u v. block = u @ memory_content @ v))
                  (split_delimiter body))) \<and>
           (\<forall>k. k \<noteq> getStorageKey this category g \<longrightarrow> getItem ls' k = getItem ls k)))"
proof -
  have kept: "join delimiter
               (filter (\<lambda>block. \<not> (\<exists>u v. block = u @ memory_content @ v))
                  (split_delimiter body)) = kept_blocks body memory_content"
    by (simp add: kept_blocks_def str_includes_iff)
  show ?thesis
  proof (intro conjI impI)
    let ?p = "memoryFilePath dirs category g"
    assume a: "lookup t ?p = Some (File body)"
    then have ne: "?p \<noteq> []" by (rule file_not_root)
    let ?t' = "AList.update ?p (File (kept_blocks body memory_content)) t"
    have "remove_specific_memory tree_fs dirs category memory_content g t =
             (Inr (text_result (''Removed specific memory from category: '' @ category)), ?t')"
      using a by (rule remove_specific_memory_tree)
    moreover have "lookup ?t' ?p = Some (File (kept_blocks body memory_content))"
      using ne by (simp add: lookup_update)
    moreover have "\<forall>q. q \<noteq> ?p \<longrightarrow> lookup ?t' q = lookup t q"
      using ne by (simp add: lookup_update)
    ultimately show "\<exists>t'. remove_specific_memory tree_fs dirs category memory_content g t =
             (Inr (text_result (''Removed specific memory from category: '' @ category)), t') \<and>
           lookup t' ?p =
             Some (File (join delimiter
               (filter (\<lambda>block. \<not> (\<exists>u v. block = u @ memory_content @ v))
                  (split_delimiter body)))) \<and>
           (\<forall>q. q \<noteq> ?p \<longrightarrow> lookup t' q = lookup t q)"
      unfolding kept by blast
  next
    let ?k = "getStorageKey this category g"
    assume a: "getItem ls ?k = Some body \<and> storage_size (items ls) \<le> quota ls"
    let ?ls' = "ls\<lparr>items := AList.update ?k (kept_blocks body memory_content) (items ls)\<rparr>"
    have "removeSpecificMemory web_storage this category memory_content g ls = (Inr (), ?ls')"
      using a by (simp add: removeSpecificMemory_mm)
    then have "mm_remove_specific_memory web_storage this category memory_content g ls =
             (Inr (text_result (''Removed specific memory from category: '' @ category)), ?ls')"
      by (simp add: mm_remove_specific_memory_def io_defs)
    moreover have "getItem ?ls' ?k = Some (kept_blocks body memory_content)"
      by (simp add: getItem_update)
    moreover have "\<forall>k. k \<noteq> ?k \<longrightarrow> getItem ?ls' k = getItem ls k"
      by (simp add: getItem_update)
    ultimately show "\<exists>ls'. mm_remove_specific_memory web_storage this category memory_content g ls =
             (Inr (text_result (''Removed specific memory from category: '' @ category)), ls') \<and>
           getItem ls' ?k =
             Some (join delimiter
               (filter (\<lambda>block. \<not> (\<exists>u v. block = u @ memory_content @ v))
                  (split_delimiter body))) \<and>
           (\<forall>k. k \<noteq> ?k \<longrightarrow> getItem ls' k = getItem ls k)"
      unfolding kept by blast
  qed
qed


lemma lookup_tree_notes:
  "lookup tree_notes (memoryFilePath dirs_ex ''notes'' False) = Some (File body_ex)"
  by (simp add: tree_notes_def tree_eval)

lemma getItem_storage_notes:
  "getItem storage_notes (getStorageKey manager_ex ''notes'' False) = Some body_ex"
  by (simp add: storage_notes_def storage_eval)

lemma storage_notes_quota: "storage_size (items storage_notes) \<le> quota storage_notes"
  by (simp add: storage_notes_def storage_size_def body_ex_def delimiter_def)

lemma kept_blocks_ex:
  "kept_blocks body_ex ''work'' = ''buy milk'' @ delimiter @ ''# home'' @ [nl] @ ''feed cat'' @ delimiter"
  by (simp add: kept_blocks_def body_ex_def string_eval)

theorem remove_entry_filters_blocks_witness:
  "(lookup tree_notes (memoryFilePath dirs_ex ''notes'' False) = Some (File body_ex) \<and>
    getItem storage_notes (getStorageKey manager_ex ''notes'' False) = Some body_ex \<and>
    storage_size (items storage_notes) \<le> quota storage_notes) \<and>
   (\<exists>t'. remove_specific_memory tree_fs dirs_ex ''notes'' ''work'' False tree_notes =
           (Inr (text_result (''Removed specific memory from category: '' @ ''notes'')), t') \<and>
         lookup t' (memoryFilePath dirs_ex ''notes'' False) =
           Some (File (join delimiter
               (filter (\<lambda>block. \<not> (\<exists>u v. block = u @ ''work'' @ v))
                  (split_delimiter body_ex)))) \<and>
         (\<forall>q. q \<noteq> memoryFilePath dirs_ex ''notes'' False \<longrightarrow> lookup t' q = lookup tree_notes q)) \<and>
   (\<exists>ls'. mm_remove_specific_memory web_storage manager_ex ''notes'' ''work'' False storage_notes =
           (Inr (text_result (''Removed specific memory from category: '' @ ''notes'')), ls') \<and>
         getItem ls' (getStorageKey manager_ex ''notes'' False) =
           Some (join delimiter
               (filter (\<lambda>block. \<not> (\<exists>u v. block = u @ ''work'' @ v))
                  (split_delimiter body_ex))) \<and>
         (\<forall>k. k \<noteq> getStorageKey manager_ex ''notes'' False \<longrightarrow>
            getItem ls' k = getItem storage_notes k)) \<and>
   join delimiter
     (filter (\<lambda>block. \<not> (\<exists>u v. block = u @ ''work'' @ v)) (split_delimiter body_ex)) =
     ''buy milk'' @ delimiter @ ''# home'' @ [nl] @ ''feed cat'' @ delimiter"
proof -
  have v: "join delimiter
     (filter (\<lambda>block. \<not> (\<exists>u v. block = u @ ''work'' @ v)) (split_delimiter body_ex)) =
     ''buy milk'' @ delimiter @ ''# home'' @ [nl] @ ''feed cat'' @ delimiter"
    using kept_blocks_ex by (simp only: kept_blocks_def str_includes_iff)
  show ?thesis
    using remove_entry_filters_blocks[of tree_notes dirs_ex "''notes''" False body_ex "''work''"
      storage_notes manager_ex]
      lookup_tree_notes getItem_storage_notes storage_notes_quota v
    by blast
qed

text \<open>
  Claim C5.  When no block of the body between double newlines contains
  \<open>memory_content\<close>, \<open>remove_specific_memory\<close> succeeds and leaves the whole state, and so
  the body, as it was: cutting a body at the double newlines and joining the blocks with
  the double newline gives the body back, for every body.  This holds for the file-backed
  server and, on a storage within its quota, for \<open>MemoryManager\<close>.
\<close>

theorem remove_entry_without_match:
  assumes "\<forall>block \<in> set (split_delimiter body). \<not> (\<exists>u v. block = u @ memory_content @ v)"
  shows
    "join delimiter (split_delimiter body) = body \<and>
     (lookup t (memoryFilePath dirs category g) = Some (File body) \<longrightarrow>
        remove_specific_memory tree_fs dirs category memory_content g t =
          (Inr (text_result (''Removed specific memory from category: '' @ category)), t)) \<and>
     (getItem ls (getStorageKey this category g) = Some body \<and>
      storage_size (items ls) \<le> quota ls \<longrightarrow>
        mm_remove_specific_memory web_storage this category memory_content g ls =
          (Inr (text_result (''Removed specific memory from category: '' @ category)), ls))"
proof -
  from assms have same: "kept_blocks body memory_content = body"
    by (intro kept_blocks_same) (simp add: str_includes_iff)
  show ?thesis
  proof (intro conjI impI)
    show "join delimiter (split_delimiter body) = body" by (rule join_split_delimiter)
  next
    let ?p = "memoryFilePath dirs category g"
    assume a: "lookup t ?p = Some (File body)"
    then have "?p \<noteq> []" by (rule file_not_root)
    with a have "map_of t ?p = Some (File body)" by (simp add: lookup_def)
    then have "AList.update ?p (File body) t = t" by (rule update_triv)
    with remove_specific_memory_tree[OF a, of memory_content] same
    show "remove_specific_memory tree_fs dirs category memory_content g t =
          (Inr (text_result (''Removed specific memory from category: '' @ category)), t)"
      by simp
  next
    let ?k = "getStorageKey this category g"
    assume a: "getItem ls ?k = Some body \<and> storage_size (items ls) \<le> quota ls"
    then have "map_of (items ls) ?k = Some body" by (simp add: getItem_def)
    then have "AList.update ?k body (items ls) = items ls" by (rule update_triv)
    moreover have "removeSpecificMemory web_storage this category memory_content g ls =
        (Inr (), ls\<lparr>items := AList.update ?k (kept_blocks body memory_content) (items ls)\<rparr>)"
      using a by (simp add: removeSpecificMemory_mm)
    ultimately show "mm_remove_specific_memory web_storage this category memory_content g ls =
          (Inr (text_result (''Removed specific memory from category: '' @ category)), ls)"
      using same by (simp add: mm_remove_specific_memory_def io_defs)
  qed
qed

theorem remove_entry_without_match_witness:
  "(filter (\<lambda>block. str_includes block ''dog'') (split_delimiter body_ex) = [] \<and>
    lookup tree_notes (memoryFilePath dirs_ex ''notes'' False) = Some (File body_ex) \<and>
    getItem storage_notes (getStorageKey manager_ex ''notes'' False) = Some body_ex \<and>
    storage_size (items storage_notes) \<le> quota storage_notes) \<and>
   join delimiter (split_delimiter body_ex) = body_ex \<and>
   remove_specific_memory tree_fs dirs_ex ''notes'' ''dog'' False tree_notes =
     (Inr (text_result (''Removed specific memory from category: '' @ ''notes'')), tree_notes) \<and>
   mm_remove_specific_memory web_storage manager_ex ''notes'' ''dog'' False storage_notes =
     (Inr (text_result (''Removed specific memory from category: '' @ ''notes'')), storage_notes)"
proof -
  have h: "\<forall>block \<in> set (split_delimiter body_ex). \<not> (\<exists>u v. block = u @ ''dog'' @ v)"
    unfolding str_includes_iff[symmetric] by (simp add: body_ex_def string_eval)
  have h': "filter (\<lambda>block. str_includes block ''dog'') (split_delimiter body_ex) = []"
    by (simp add: body_ex_def string_eval)
  show ?thesis
    using remove_entry_without_match[OF h, of tree_notes dirs_ex "''notes''" False
        storage_notes manager_ex]
      h' lookup_tree_notes getItem_storage_notes storage_notes_quota
    by blast
qed



section \<open>The wildcard\<close>

lemma decode_body_Nil [simp]: "decode_body [] = []"
  by (simp add: decode_body_def decode_entries_def)

lemma obj_get_collect:
  "obj_get (collect view m category) c =
     (if c = category \<and> c \<noteq> ''__proto__'' \<and> view c \<noteq> []
      then Some (flat (Object_values (view c))) else obj_get m c)"
  by (auto simp: collect_def obj_get_obj_set)

lemma obj_get_foldl_collect:
  "obj_get (foldl (collect view) m cs) c =
     (if c \<noteq> ''__proto__'' \<and> c \<in> set cs \<and> view c \<noteq> []
      then Some (flat (Object_values (view c))) else obj_get m c)"
proof (induction cs arbitrary: m)
  case Nil
  then show ?case by simp
next
  case (Cons a cs)
  show ?case by (auto simp: Cons.IH obj_get_collect)
qed

lemma foldl_filter_map:
  "foldl (\<lambda>m k. if Q k then step m (f k) else m) m ks = foldl step m (map f (filter Q ks))"
  by (induction ks arbitrary: m) auto

lemma retrieveAll_collect:
  "retrieveAll web_storage this g ls =
     foldl (collect (\<lambda>category. retrieve web_storage this category g ls)) []
       (map (\<lambda>key. substring key (length (storagePrefix this g)))
          (filter (\<lambda>key. truthy key \<and> startsWith key (storagePrefix this g)) (storage_keys ls)))"
proof -
  have "(\<lambda>memories key.
           if truthy key \<and> startsWith key (storagePrefix this g) then
             let category = substring key (length (storagePrefix this g));
                 categoryMemories = retrieve web_storage this category g ls
             in if length (Object_values categoryMemories) > 0
                then obj_set category (flat (Object_values categoryMemories)) memories
                else memories
           else memories) =
        (\<lambda>m k. if truthy k \<and> startsWith k (storagePrefix this g)
               then collect (\<lambda>category. retrieve web_storage this category g ls) m
                      (substring k (length (storagePrefix this g)))
               else m)"
    by (intro ext) (simp add: collect_def Let_def)
  then show ?thesis
    unfolding retrieveAll_web
    using foldl_filter_map[of "\<lambda>k. truthy k \<and> startsWith k (storagePrefix this g)"
        "collect (\<lambda>category. retrieve web_storage this category g ls)"
        "\<lambda>key. substring key (length (storagePrefix this g))" "[]" "storage_keys ls"]
    by (simp add: Let_def)
qed

lemma retrieve_nonempty_key:
  assumes "retrieve web_storage this c g ls \<noteq> []"
  shows "getStorageKey this c g \<in> set (storage_keys ls)"
proof -
  from assms obtain body where b: "getItem ls (getStorageKey this c g) = Some body"
    by (auto simp: retrieve_web Let_def split: option.splits if_splits)
  then show "getStorageKey this c g \<in> set (storage_keys ls)"
    by (auto simp: getItem_def storage_keys_def dest: map_of_SomeD intro: rev_image_eqI)
qed

lemma retrieveAll_get:
  assumes "storagePrefix this g \<noteq> []"
  shows "obj_get (retrieveAll web_storage this g ls) c =
     (if c \<noteq> ''__proto__'' \<and> retrieve web_storage this c g ls \<noteq> []
      then Some (flat (Object_values (retrieve web_storage this c g ls))) else None)"
proof -
  let ?P = "storagePrefix this g"
  let ?cs = "map (\<lambda>key. substring key (length ?P))
          (filter (\<lambda>key. truthy key \<and> startsWith key ?P) (storage_keys ls))"
  have "c \<in> set ?cs" if "retrieve web_storage this c g ls \<noteq> []"
  proof -
    have k: "?P @ c \<in> set (storage_keys ls)"
      using retrieve_nonempty_key[OF that] by (simp add: getStorageKey_def)
    have "truthy (?P @ c) \<and> startsWith (?P @ c) ?P"
      using assms by (simp add: truthy_def startsWith_def)
    moreover have "substring (?P @ c) (length ?P) = c" by (simp add: substring_def)
    ultimately show ?thesis using k by (force simp: image_iff)
  qed
  note member = this
  have "obj_get (retrieveAll web_storage this g ls) c =
     (if c \<noteq> ''__proto__'' \<and> c \<in> set ?cs \<and> retrieve web_storage this c g ls \<noteq> []
      then Some (flat (Object_values (retrieve web_storage this c g ls))) else obj_get [] c)"
    by (simp only: retrieveAll_collect obj_get_foldl_collect)
  moreover have "obj_get [] c = (None :: string list option)" by (simp add: obj_get_def)
  ultimately show ?thesis using member by auto
qed

lemma new_MemoryManager_prefix: "storagePrefix (new_MemoryManager options) g \<noteq> []"
  by (simp add: new_MemoryManager_def storagePrefix_def Let_def)

lemma tree_view_retrieveCategory:
  assumes "lookup t (memoryFilePath dirs category g) \<noteq> Some Directory"
  shows "retrieveCategory tree_fs dirs category g t = (Inr (tree_view dirs g t category), t)"
proof (cases "lookup t (memoryFilePath dirs category g)")
  case None
  then show ?thesis by (simp add: retrieveCategory_tree tree_view_def file_body_def)
next
  case (Some n)
  with assms show ?thesis
    by (cases n) (simp_all add: retrieveCategory_tree tree_view_def file_body_def)
qed

lemma retrieve_all_files_tree:
  assumes "list_all (\<lambda>category. lookup t (memoryFilePath dirs category g) \<noteq> Some Directory)
             (category_names files)"
  shows "retrieve_all_files tree_fs dirs g files m t =
         (Inr (foldl (collect (tree_view dirs g t)) m (category_names files)), t)"
  using assms
proof (induction files arbitrary: m)
  case Nil
  then show ?case by (simp add: category_names_def io_defs)
next
  case (Cons f files)
  show ?case
  proof (cases "endsWith f ''.txt''")
    case True
    with Cons.prems have
      d: "lookup t (memoryFilePath dirs (replace_first f ''.txt'') g) \<noteq> Some Directory"
      and r: "list_all (\<lambda>category. lookup t (memoryFilePath dirs category g) \<noteq> Some Directory)
             (category_names files)"
      by (simp_all add: category_names_def)
    show ?thesis
      using True Cons.IH[OF r] tree_view_retrieveCategory[OF d]
      by (simp add: category_names_def io_defs Let_def collect_def)
  next
    case False
    with Cons.prems have
      r: "list_all (\<lambda>category. lookup t (memoryFilePath dirs category g) \<noteq> Some Directory)
             (category_names files)"
      by (simp_all add: category_names_def)
    show ?thesis using False Cons.IH[OF r] by (simp add: category_names_def)
  qed
qed

lemma retrieve_memories_tree_wildcard:
  assumes "listing_readable dirs g t"
  shows "retrieve_memories tree_fs dirs ''*'' g t =
    (Inr (json_result (foldl (collect (tree_view dirs g t)) []
       (category_names (children t (baseDir dirs g))))), t)"
proof -
  from assms have d: "lookup t (baseDir dirs g) = Some Directory"
    and r: "list_all (\<lambda>category. lookup t (memoryFilePath dirs category g) \<noteq> Some Directory)
       (category_names (children t (baseDir dirs g)))"
    by (simp_all add: listing_readable_def)
  show ?thesis
    using d retrieve_all_files_tree[OF r, of "[]"]
    by (simp add: retrieve_memories_def tree_fs_def tree_pathExists_def tree_readdir_def io_defs)
qed

lemma replace_first_suffix:
  "\<not> str_includes c ''.txt'' \<Longrightarrow> replace_first (c @ ''.txt'') ''.txt'' = c"
proof (induction c)
  case Nil
  then show ?case by simp
next
  case (Cons x xs)
  then have n: "\<not> prefix ''.txt'' (x # xs)" and r: "\<not> str_includes xs ''.txt''" by auto
  have "\<not> prefix ''.txt'' ((x # xs) @ ''.txt'')"
  proof
    assume p: "prefix ''.txt'' ((x # xs) @ ''.txt'')"
    show False
    proof (cases xs)
      case Nil
      with p show ?thesis by simp
    next
      case (Cons y ys)
      note xs = this
      show ?thesis
      proof (cases ys)
        case Nil
        with p xs show ?thesis by simp
      next
        case (Cons z zs)
        note ys = this
        show ?thesis
        proof (cases zs)
          case Nil
          with p xs ys show ?thesis by simp
        next
          case (Cons w ws)
          with p xs ys n show ?thesis by auto
        qed
      qed
    qed
  qed
  then have "\<not> prefix ''.txt'' (x # (xs @ ''.txt''))" by simp
  then have "replace_first (x # (xs @ ''.txt'')) ''.txt'' = x # replace_first (xs @ ''.txt'') ''.txt''"
    by (simp only: replace_first.simps if_False)
  with Cons.IH[OF r] show ?case by simp
qed

lemma child_of_lookup:
  assumes "lookup t (d @ [f]) \<noteq> None"
  shows "f \<in> set (children t d)"
proof -
  from assms obtain n where "map_of t (d @ [f]) = Some n" by (auto simp: lookup_def)
  then have "(d @ [f], n) \<in> set t" by (rule map_of_SomeD)
  then show ?thesis by (force simp: children_def image_iff)
qed

lemma memoryFilePath_plain:
  assumes "slash \<notin> set category"
  shows "memoryFilePath dirs category g = baseDir dirs g @ [category @ ''.txt'']"
proof -
  have "slash \<notin> set (category @ ''.txt'')" using assms by (simp add: slash_def)
  then have "split_char slash (category @ ''.txt'') = [category @ ''.txt'']"
    by (rule split_char_notin)
  moreover have "category @ ''.txt'' \<noteq> []" "category @ ''.txt'' \<noteq> ''.''"
    "category @ ''.txt'' \<noteq> ''..''"
    by (auto simp: append_eq_Cons_conv)
  ultimately show ?thesis by (simp add: memoryFilePath_def path_join_def path_step_def)
qed

lemma tree_view_nonempty_file:
  assumes "tree_view dirs g t c \<noteq> []"
  shows "lookup t (memoryFilePath dirs c g) \<noteq> None"
  using assms by (cases "lookup t (memoryFilePath dirs c g)") (auto simp: tree_view_def file_body_def)

lemma tree_wildcard_get:
  assumes "slash \<notin> set c" and "\<not> str_includes c ''.txt''"
  shows "obj_get (foldl (collect (tree_view dirs g t)) []
       (category_names (children t (baseDir dirs g)))) c =
     (if c \<noteq> ''__proto__'' \<and> tree_view dirs g t c \<noteq> []
      then Some (flat (Object_values (tree_view dirs g t c))) else None)"
proof -
  have "c \<in> set (category_names (children t (baseDir dirs g)))" if "tree_view dirs g t c \<noteq> []"
  proof -
    from tree_view_nonempty_file[OF that] memoryFilePath_plain[OF assms(1)]
    have "c @ ''.txt'' \<in> set (children t (baseDir dirs g))"
      by (simp add: child_of_lookup)
    moreover have "endsWith (c @ ''.txt'') ''.txt''" by (simp add: endsWith_def suffix_def)
    moreover have "replace_first (c @ ''.txt'') ''.txt'' = c"
      using assms(2) by (rule replace_first_suffix)
    ultimately show ?thesis by (force simp: category_names_def image_iff)
  qed
  moreover have "obj_get [] c = (None :: string list option)" by (simp add: obj_get_def)
  ultimately show ?thesis by (auto simp: obj_get_foldl_collect)
qed

lemma split_delimiter_subset: "b \<in> set (split_delimiter s) \<Longrightarrow> set b \<subseteq> set s"
proof (induction s arbitrary: b rule: split_delimiter.induct)
  case 1
  then show ?case by simp
next
  case (2 c)
  then show ?case by simp
next
  case (3 c c' cs)
  show ?case
  proof (cases "c = nl \<and> c' = nl")
    case True
    with "3.prems" "3.IH"(1) show ?thesis by (auto simp: split_delimiter.simps)
  next
    case False
    let ?r = "split_delimiter (c' # cs)"
    from False "3.prems" have "b = c # hd ?r \<or> b \<in> set (tl ?r)"
      by (auto simp: split_delimiter.simps)
    moreover have "hd ?r \<in> set ?r" by simp
    moreover have "set (tl ?r) \<subseteq> set ?r" by (simp add: list.set_sel(2) subsetI)
    ultimately show ?thesis using "3.IH"(2)[OF False] by (auto, blast+)
  qed
qed

lemma blank_body_view:
  assumes "\<forall>ch \<in> set body. isWhiteSpace ch"
  shows "decode_body body = []"
proof -
  have "foldl decode_entry m bs = m" if "\<forall>b \<in> set bs. \<forall>ch \<in> set b. isWhiteSpace ch" for m bs
    using that by (induction bs arbitrary: m) (simp_all add: decode_entry_blank)
  moreover have "\<forall>b \<in> set (split_delimiter body). \<forall>ch \<in> set b. isWhiteSpace ch"
    using assms split_delimiter_subset by blast
  ultimately show ?thesis by (simp add: decode_body_def decode_entries_def)
qed

text \<open>
  Claim C3, as stated, fails: a category whose view has no group is left out of the
  mapping.  After \<open>milk\<close> is stored in the category \<open>shopping\<close> and removed again, the
  resource exists with an empty body, and the wildcard returns \<open>{}\<close>.
\<close>

theorem wildcard_retrieve_counterexample:
  "lookup
     (snd (remove_specific_memory tree_fs dirs_ex ''shopping'' ''milk'' False
       (snd (remember_memory tree_fs dirs_ex ''shopping'' ''milk'' [] False tree_ex))))
     (memoryFilePath dirs_ex ''shopping'' False) = Some (File []) \<and>
   fst (retrieve_memories tree_fs dirs_ex ''*'' False
     (snd (remove_specific_memory tree_fs dirs_ex ''shopping'' ''milk'' False
       (snd (remember_memory tree_fs dirs_ex ''shopping'' ''milk'' [] False tree_ex))))) =
     Inr (json_result [])"
  by (simp add: handler_eval tree_eval decode_eval string_eval object_eval retrieve_all_files.simps)

text \<open>
  Claim C3, amended.  \<open>retrieve_memories\<close> with the category \<open>*\<close> returns a mapping that
  has a category name as a key exactly when the grouped view of that category in the same
  scope has a group, and then maps it to the lines of all its groups, flattened in the
  order of \<open>Object.values\<close>; a category with no resource in the scope has the empty view
  and is no key.  In the file-backed server this is proved when the listing can be read
  (the directory exists and no path derived from it is a directory), for names other than
  \<open>__proto__\<close> without \<open>/\<close> and without \<open>.txt\<close> inside; in \<open>MemoryManager\<close> for every name
  other than \<open>__proto__\<close>.
\<close>

theorem wildcard_retrieve:
  "(listing_readable dirs g t \<longrightarrow>
      (\<exists>m. retrieve_memories tree_fs dirs ''*'' g t = (Inr (json_result m), t) \<and>
           (\<forall>c. slash \<notin> set c \<and> \<not> (\<exists>u v. c = u @ ''.txt'' @ v) \<longrightarrow>
                obj_get m c =
                  (if c \<noteq> ''__proto__'' \<and> tree_view dirs g t c \<noteq> []
                   then Some (flat (Object_values (tree_view dirs g t c))) else None)))) \<and>
   mm_retrieve_memories web_storage (new_MemoryManager options) ''*'' g ls =
     (Inr (json_result (retrieveAll web_storage (new_MemoryManager options) g ls)), ls) \<and>
   (\<forall>c. obj_get (retrieveAll web_storage (new_MemoryManager options) g ls) c =
          (if c \<noteq> ''__proto__'' \<and> retrieve web_storage (new_MemoryManager options) c g ls \<noteq> []
           then Some (flat (Object_values (retrieve web_storage (new_MemoryManager options) c g ls)))
           else None))"
proof (intro conjI impI allI)
  assume a: "listing_readable dirs g t"
  let ?m = "foldl (collect (tree_view dirs g t)) [] (category_names (children t (baseDir dirs g)))"
  have "retrieve_memories tree_fs dirs ''*'' g t = (Inr (json_result ?m), t)"
    using a by (rule retrieve_memories_tree_wildcard)
  moreover have "\<forall>c. slash \<notin> set c \<and> \<not> (\<exists>u v. c = u @ ''.txt'' @ v) \<longrightarrow>
                obj_get ?m c =
                  (if c \<noteq> ''__proto__'' \<and> tree_view dirs g t c \<noteq> []
                   then Some (flat (Object_values (tree_view dirs g t c))) else None)"
    using tree_wildcard_get[of _ dirs g t] by (simp add: str_includes_iff)
  ultimately show "\<exists>m. retrieve_memories tree_fs dirs ''*'' g t = (Inr (json_result m), t) \<and>
           (\<forall>c. slash \<notin> set c \<and> \<not> (\<exists>u v. c = u @ ''.txt'' @ v) \<longrightarrow>
                obj_get m c =
                  (if c \<noteq> ''__proto__'' \<and> tree_view dirs g t c \<noteq> []
                   then Some (flat (Object_values (tree_view dirs g t c))) else None))"
    by blast
next
  show "mm_retrieve_memories web_storage (new_MemoryManager options) ''*'' g ls =
     (Inr (json_result (retrieveAll web_storage (new_MemoryManager options) g ls)), ls)"
    by (simp add: mm_retrieve_memories_def io_defs)
next
  fix c
  show "obj_get (retrieveAll web_storage (new_MemoryManager options) g ls) c =
          (if c \<noteq> ''__proto__'' \<and> retrieve web_storage (new_MemoryManager options) c g ls \<noteq> []
           then Some (flat (Object_values (retrieve web_storage (new_MemoryManager options) c g ls)))
           else None)"
    using new_MemoryManager_prefix by (rule retrieveAll_get)
qed

text \<open>
  Claim C9.  A body of white space only (the empty body among them) has the empty view;
  and a category whose resource exists with a body of empty view is no key of the mapping
  that \<open>retrieve_memories\<close> returns for the category \<open>*\<close>, in the file-backed server
  (when the listing can be read) and in \<open>MemoryManager\<close>.
\<close>

theorem empty_view_omitted:
  assumes "decode_body body = []"
  shows
    "((\<forall>ch \<in> set blank. isWhiteSpace ch) \<longrightarrow> decode_body blank = []) \<and>
     (listing_readable dirs g t \<and> lookup t (memoryFilePath dirs c g) = Some (File body) \<longrightarrow>
        (\<exists>m. retrieve_memories tree_fs dirs ''*'' g t = (Inr (json_result m), t) \<and>
             obj_get m c = None)) \<and>
     (getItem ls (getStorageKey this c g) = Some body \<longrightarrow>
        (\<exists>m. mm_retrieve_memories web_storage this ''*'' g ls = (Inr (json_result m), ls) \<and>
             obj_get m c = None))"
proof (intro conjI impI)
  assume "\<forall>ch \<in> set blank. isWhiteSpace ch"
  then show "decode_body blank = []" by (rule blank_body_view)
next
  assume a: "listing_readable dirs g t \<and> lookup t (memoryFilePath dirs c g) = Some (File body)"
  let ?m = "foldl (collect (tree_view dirs g t)) [] (category_names (children t (baseDir dirs g)))"
  have "retrieve_memories tree_fs dirs ''*'' g t = (Inr (json_result ?m), t)"
    using a by (simp add: retrieve_memories_tree_wildcard)
  moreover have "tree_view dirs g t c = []"
    using a assms by (simp add: tree_view_def file_body_def)
  then have "obj_get ?m c = None"
    by (simp add: obj_get_foldl_collect) (simp add: obj_get_def)
  ultimately show "\<exists>m. retrieve_memories tree_fs dirs ''*'' g t = (Inr (json_result m), t) \<and>
             obj_get m c = None"
    by blast
next
  assume a: "getItem ls (getStorageKey this c g) = Some body"
  have "retrieve web_storage this c g ls = []"
    using a assms by (simp add: retrieve_web Let_def)
  then have "obj_get (retrieveAll web_storage this g ls) c = None"
    by (simp add: retrieveAll_collect obj_get_foldl_collect) (simp add: obj_get_def)
  moreover have "mm_retrieve_memories web_storage this ''*'' g ls = (Inr (json_result (retrieveAll web_storage this g ls)), ls)"
    by (simp add: mm_retrieve_memories_def io_defs)
  ultimately show "\<exists>m. mm_retrieve_memories web_storage this ''*'' g ls = (Inr (json_result m), ls) \<and>
             obj_get m c = None"
    by blast
qed

lemma listing_readable_cats: "listing_readable dirs_ex False tree_cats"
  by (simp add: listing_readable_def category_names_def tree_cats_def tree_eval string_eval)

lemma plain_names:
  "slash \<notin> set ''x'' \<and> \<not> (\<exists>u v. ''x'' = u @ ''.txt'' @ v)"
  "slash \<notin> set ''y'' \<and> \<not> (\<exists>u v. ''y'' = u @ ''.txt'' @ v)"
  "slash \<notin> set ''z'' \<and> \<not> (\<exists>u v. ''z'' = u @ ''.txt'' @ v)"
  "slash \<notin> set ''blank'' \<and> \<not> (\<exists>u v. ''blank'' = u @ ''.txt'' @ v)"
  unfolding str_includes_iff[symmetric] by (simp_all add: slash_def)

lemma tree_view_cats:
  "tree_view dirs_ex False tree_cats ''x'' = [(''untagged'', [''a'']), (''t'', [''b''])]"
  "tree_view dirs_ex False tree_cats ''y'' = [(''untagged'', [''c''])]"
  "tree_view dirs_ex False tree_cats ''z'' = []"
  "tree_view dirs_ex False tree_cats ''blank'' = []"
  by (simp_all add: tree_view_def file_body_def tree_cats_def tree_eval decode_eval string_eval object_eval)

lemma retrieve_cats:
  "retrieve web_storage manager_ex ''x'' False storage_cats = [(''untagged'', [''a'']), (''t'', [''b''])]"
  "retrieve web_storage manager_ex ''y'' False storage_cats = [(''untagged'', [''c''])]"
  "retrieve web_storage manager_ex ''z'' False storage_cats = []"
  "retrieve web_storage manager_ex ''blank'' False storage_cats = []"
  by (simp_all add: retrieve_web storage_cats_def storage_eval decode_eval string_eval object_eval)

lemma flat_values_cats:
  "flat (Object_values [(''untagged'', [''a'']), (''t'', [''b''])]) = [''a'', ''b'']"
  "flat (Object_values [(''untagged'', [''c''])]) = [''c'']"
  by (simp_all add: object_eval)

theorem wildcard_retrieve_witness:
  "listing_readable dirs_ex False tree_cats \<and>
   (\<exists>m. retrieve_memories tree_fs dirs_ex ''*'' False tree_cats = (Inr (json_result m), tree_cats) \<and>
        obj_get m ''x'' = Some [''a'', ''b''] \<and> obj_get m ''y'' = Some [''c''] \<and>
        obj_get m ''blank'' = None \<and> obj_get m ''z'' = None) \<and>
   mm_retrieve_memories web_storage manager_ex ''*'' False storage_cats =
     (Inr (json_result (retrieveAll web_storage manager_ex False storage_cats)), storage_cats) \<and>
   obj_get (retrieveAll web_storage manager_ex False storage_cats) ''x'' = Some [''a'', ''b''] \<and>
   obj_get (retrieveAll web_storage manager_ex False storage_cats) ''y'' = Some [''c''] \<and>
   obj_get (retrieveAll web_storage manager_ex False storage_cats) ''blank'' = None \<and>
   obj_get (retrieveAll web_storage manager_ex False storage_cats) ''z'' = None"
proof -
  note w = wildcard_retrieve[of dirs_ex False tree_cats None storage_cats, folded manager_ex_def]
  from w listing_readable_cats obtain m where
    m: "retrieve_memories tree_fs dirs_ex ''*'' False tree_cats = (Inr (json_result m), tree_cats)"
    and t: "\<forall>c. slash \<notin> set c \<and> \<not> (\<exists>u v. c = u @ ''.txt'' @ v) \<longrightarrow>
                obj_get m c =
                  (if c \<noteq> ''__proto__'' \<and> tree_view dirs_ex False tree_cats c \<noteq> []
                   then Some (flat (Object_values (tree_view dirs_ex False tree_cats c))) else None)"
    by blast
  from t plain_names have
    "obj_get m ''x'' = Some [''a'', ''b'']" "obj_get m ''y'' = Some [''c'']"
    "obj_get m ''blank'' = None" "obj_get m ''z'' = None"
    by (simp_all add: tree_view_cats flat_values_cats)
  with m have tree: "\<exists>m. retrieve_memories tree_fs dirs_ex ''*'' False tree_cats = (Inr (json_result m), tree_cats) \<and>
        obj_get m ''x'' = Some [''a'', ''b''] \<and> obj_get m ''y'' = Some [''c''] \<and>
        obj_get m ''blank'' = None \<and> obj_get m ''z'' = None"
    by blast
  from w have s: "\<forall>c. obj_get (retrieveAll web_storage manager_ex False storage_cats) c =
          (if c \<noteq> ''__proto__'' \<and> retrieve web_storage manager_ex c False storage_cats \<noteq> []
           then Some (flat (Object_values (retrieve web_storage manager_ex c False storage_cats)))
           else None)"
    and r: "mm_retrieve_memories web_storage manager_ex ''*'' False storage_cats =
     (Inr (json_result (retrieveAll web_storage manager_ex False storage_cats)), storage_cats)"
    by blast+
  from s have
    "obj_get (retrieveAll web_storage manager_ex False storage_cats) ''x'' = Some [''a'', ''b'']"
    "obj_get (retrieveAll web_storage manager_ex False storage_cats) ''y'' = Some [''c'']"
    "obj_get (retrieveAll web_storage manager_ex False storage_cats) ''blank'' = None"
    "obj_get (retrieveAll web_storage manager_ex False storage_cats) ''z'' = None"
    by (simp_all add: retrieve_cats flat_values_cats)
  with tree r listing_readable_cats show ?thesis by blast
qed

theorem empty_view_omitted_witness:
  "(decode_body ('' '' @ delimiter) = [] \<and> listing_readable dirs_ex False tree_cats \<and>
    lookup tree_cats (memoryFilePath dirs_ex ''blank'' False) = Some (File ('' '' @ delimiter)) \<and>
    getItem storage_cats (getStorageKey manager_ex ''blank'' False) = Some ('' '' @ delimiter)) \<and>
   (\<exists>m. retrieve_memories tree_fs dirs_ex ''*'' False tree_cats = (Inr (json_result m), tree_cats) \<and>
        obj_get m ''blank'' = None) \<and>
   (\<exists>m. mm_retrieve_memories web_storage manager_ex ''*'' False storage_cats = (Inr (json_result m), storage_cats) \<and>
        obj_get m ''blank'' = None)"
proof -
  have h1: "decode_body ('' '' @ delimiter) = []"
    by (simp add: decode_eval string_eval)
  have h2: "lookup tree_cats (memoryFilePath dirs_ex ''blank'' False) = Some (File ('' '' @ delimiter))"
    by (simp add: tree_cats_def tree_eval)
  have h3: "getItem storage_cats (getStorageKey manager_ex ''blank'' False) = Some ('' '' @ delimiter)"
    by (simp add: storage_cats_def storage_eval)
  show ?thesis
    using empty_view_omitted[OF h1, of "'' '' @ delimiter" dirs_ex False tree_cats "''blank''" storage_cats manager_ex]
      h1 h2 h3 listing_readable_cats
    by blast
qed

section \<open>Storage failures and validation\<close>


lemma recorded_throw: "recorded (io_throw e) (w, log) = (Inl e, (w, log @ [e]))"
  by (simp add: recorded_def io_throw_def)

























section \<open>The two scopes\<close>






lemma quota_removeItem [simp]: "quota (removeItem k ls) = quota ls"
  by (simp add: removeItem_def)

lemma quota_removeItems [simp]: "quota (foldl (\<lambda>ls key. removeItem key ls) ls ks) = quota ls"
  by (induction ks arbitrary: ls) simp_all


















lemma same_outside_refl [simp]: "same_outside base t t"
  by (simp add: same_outside_def)













lemma snd_io_bind:
  "snd (m w) = w \<Longrightarrow> (\<And>x. snd (f x w) = w) \<Longrightarrow> snd (io_bind m f w) = w"
  by (cases "m w"; cases "fst (m w)") (auto simp: io_defs)

lemma snd_io_catch:
  "snd (m w) = w \<Longrightarrow> (\<And>e. snd (h e w) = w) \<Longrightarrow> snd (io_catch m h w) = w"
  by (cases "m w"; cases "fst (m w)") (auto simp: io_defs)

lemma snd_io_return [simp]: "snd (io_return x w) = w"
  by (simp add: io_defs)

lemma tree_reads_state [simp]:
  "snd (pathExists tree_fs p t) = t" "snd (readFile tree_fs p t) = t" "snd (readdir tree_fs p t) = t"
  by (simp_all add: tree_fs_def tree_pathExists_def tree_readFile_def tree_readdir_def
        split: option.splits node.splits)

lemma retrieveCategory_state [simp]: "snd (retrieveCategory tree_fs dirs category g t) = t"
  unfolding retrieveCategory_def Let_def
  by (intro snd_io_bind) (simp_all add: snd_io_bind)

lemma retrieve_all_files_state [simp]: "snd (retrieve_all_files tree_fs dirs g files m t) = t"
  by (induction files arbitrary: m) (simp_all add: snd_io_bind Let_def)

lemma retrieve_memories_state [simp]: "snd (retrieve_memories tree_fs dirs category g t) = t"
  unfolding retrieve_memories_def
  by (intro snd_io_catch) (simp_all add: snd_io_bind)



















section \<open>Limits of the amended statements\<close>

text \<open>
  Why the amended statements carry their hypotheses.  Each line is the server on the file
  tree \<open>tree_ex\<close>: data with a blank line is cut in two entries; white space around the
  joined tags is trimmed from the key; the key \<open>__proto__\<close> is no property of the view;
  data of white space only leaves the view empty; and after data that ends in a newline
  the next tag header is no first line, so that header and data are filed under
  \<open>untagged\<close>.
\<close>

lemma store_then_retrieve_limits:
  "fst (retrieve_memories tree_fs dirs_ex ''notes'' False
         (snd (remember_memory tree_fs dirs_ex ''notes'' (''a'' @ delimiter @ ''b'') [''t''] False tree_ex))) =
     Inr (json_result [(''t'', [''a'']), (''untagged'', [''b''])])"
  "fst (retrieve_memories tree_fs dirs_ex ''notes'' False
         (snd (remember_memory tree_fs dirs_ex ''notes'' ''a'' ['' t''] False tree_ex))) =
     Inr (json_result [(''t'', [''a''])])"
  "fst (retrieve_memories tree_fs dirs_ex ''notes'' False
         (snd (remember_memory tree_fs dirs_ex ''notes'' ''a'' [''__proto__''] False tree_ex))) =
     Inr (json_result [])"
  "fst (retrieve_memories tree_fs dirs_ex ''notes'' False
         (snd (remember_memory tree_fs dirs_ex ''notes'' '' '' [] False tree_ex))) =
     Inr (json_result [])"
  "fst (retrieve_memories tree_fs dirs_ex ''notes'' False
         (snd (remember_memory tree_fs dirs_ex ''notes'' ''b'' [''t''] False
           (snd (remember_memory tree_fs dirs_ex ''notes'' (''a'' @ [nl]) [] False tree_ex))))) =
     Inr (json_result [(''untagged'', [''a'', ''# t'', ''b''])])"
  by (simp_all add: handler_eval tree_eval decode_eval string_eval object_eval)

text \<open>
  The name of a category is recovered from the file name by removing the first \<open>.txt\<close>,
  not the last: the category \<open>a.txtb\<close> is looked up as \<open>ab.txt\<close> and is left out of the
  result of the wildcard.
\<close>

lemma wildcard_name_with_extension_inside:
  "fst (retrieve_memories tree_fs dirs_ex ''a.txtb'' False
         (snd (remember_memory tree_fs dirs_ex ''a.txtb'' ''x'' [] False tree_ex))) =
     Inr (json_result [(''untagged'', [''x''])])"
  "fst (retrieve_memories tree_fs dirs_ex ''*'' False
         (snd (remember_memory tree_fs dirs_ex ''a.txtb'' ''x'' [] False tree_ex))) =
     Inr (json_result [])"
  by (simp_all add: handler_eval tree_eval decode_eval string_eval object_eval)

text \<open>
  When one directory lies in the other, removing the category \<open>*\<close> in the outer scope
  removes the categories of the inner scope.
\<close>

lemma nested_directories_not_isolated:
  "\<not> separate (appDirs env_nested)"
  "fst (retrieve_memories tree_fs (appDirs env_nested) ''z'' True tree_nested) =
     Inr (json_result [(''untagged'', [''d''])])"
  "fst (retrieve_memories tree_fs (appDirs env_nested) ''z'' True
         (snd (remove_memory_category tree_fs (appDirs env_nested) ''*'' False tree_nested))) =
     Inr (json_result [])"
  by (simp_all add: separate_def appDirs_def env_nested_def tree_nested_def handler_eval
        tree_fs_def tree_pathExists_def tree_readFile_def tree_emptyDir_def lookup_def
        memoryFilePath_def baseDir_def path_join_def path_step_def slash_def
        decode_eval string_eval object_eval)

end
